theory Spec2Isabelle
  imports Main "HOL-Library.Word"
begin

unbundle bit_operations_syntax

section \<open>Pixel conversion\<close>

text \<open>
  The C program \<^verbatim>\<open>kmsgrab.c\<close> is embedded function by function. Fixed-width C
  integers are words of the same width: \<^verbatim>\<open>uint8_t\<close>, \<^verbatim>\<open>uint16_t\<close>,
  \<^verbatim>\<open>uint32_t\<close>/\<^verbatim>\<open>unsigned int\<close> and \<^verbatim>\<open>uint64_t\<close> are \<open>8 word\<close>, \<open>16 word\<close>,
  \<open>32 word\<close> and \<open>64 word\<close>; arithmetic on them wraps around as in C.
\<close>

type_synonym uint8_t = "8 word"
type_synonym uint16_t = "16 word"
type_synonym uint32_t = "32 word"
type_synonym uint64_t = "64 word"

text \<open>\<^verbatim>\<open>typedef struct { uint8_t r, g, b; } uint24_t;\<close>\<close>

record uint24_t =
  r :: uint8_t
  g :: uint8_t
  b :: uint8_t

text \<open>
  \<^verbatim>\<open>rgb16_to_24\<close>: the operand \<^verbatim>\<open>px\<close> is promoted to a 32-bit \<^verbatim>\<open>int\<close> before masking
  and shifting; the assignment to a \<^verbatim>\<open>uint8_t\<close> field keeps the low 8 bits.
\<close>

definition rgb16_to_24 :: "uint16_t \<Rightarrow> uint24_t" where
  "rgb16_to_24 px =
     \<lparr> r = ucast (drop_bit 8 ((ucast px :: uint32_t) AND 0xf800)),
       g = ucast (drop_bit 3 ((ucast px :: uint32_t) AND 0x7e0)),
       b = ucast (push_bit 3 ((ucast px :: uint32_t) AND 0x1f)) \<rparr>"

definition rgb32_to_24 :: "uint32_t \<Rightarrow> uint24_t" where
  "rgb32_to_24 px =
     \<lparr> r = ucast (drop_bit 16 px AND 0xff),
       g = ucast (drop_bit 8 px AND 0xff),
       b = ucast (px AND 0xff) \<rparr>"

text \<open>
  The fields of libdrm's \<^verbatim>\<open>drmModeFB\<close> that the program reads (the structure is declared
  in \<^verbatim>\<open>xf86drmMode.h\<close>, all three are \<^verbatim>\<open>uint32_t\<close>).
\<close>

record drmModeFB =
  width :: uint32_t
  height :: uint32_t
  bpp :: uint32_t

text \<open>
  The source buffer \<^verbatim>\<open>void *from\<close> is byte-addressed memory, given as the byte at each
  offset from the pointer. \<^verbatim>\<open>ptr[i]\<close> through a \<^verbatim>\<open>uint16_t *\<close> or \<^verbatim>\<open>uint32_t *\<close> reads
  two or four consecutive bytes, least significant byte first (the byte order of the
  hosts the DRM formats are defined for).
\<close>

type_synonym memory = "nat \<Rightarrow> uint8_t"

definition load16 :: "memory \<Rightarrow> nat \<Rightarrow> uint16_t" where
  "load16 m i = ucast (m (2 * i)) OR push_bit 8 (ucast (m (2 * i + 1)))"

definition load32 :: "memory \<Rightarrow> nat \<Rightarrow> uint32_t" where
  "load32 m i =
     ucast (m (4 * i)) OR push_bit 8 (ucast (m (4 * i + 1)))
       OR push_bit 16 (ucast (m (4 * i + 2))) OR push_bit 24 (ucast (m (4 * i + 3)))"

text \<open>
  The two \<^verbatim>\<open>while (len--) *to++ = f(*ptr++);\<close> loops. \<open>len\<close> is the \<^verbatim>\<open>unsigned int\<close>
  counter, \<open>i\<close> the number of elements \<^verbatim>\<open>ptr\<close> has advanced; the result is the list of
  samples stored through \<^verbatim>\<open>to\<close>, in the order they are stored.
\<close>

function convert_loop16 :: "uint32_t \<Rightarrow> nat \<Rightarrow> memory \<Rightarrow> uint24_t list" where
  "convert_loop16 len i m =
     (if len = 0 then [] else rgb16_to_24 (load16 m i) # convert_loop16 (len - 1) (Suc i) m)"
  by pat_completeness auto
termination
  by (relation "measure (\<lambda>(len, i, m). unat len)") (auto simp: unat_minus_one unat_gt_0)

function convert_loop32 :: "uint32_t \<Rightarrow> nat \<Rightarrow> memory \<Rightarrow> uint24_t list" where
  "convert_loop32 len i m =
     (if len = 0 then [] else rgb32_to_24 (load32 m i) # convert_loop32 (len - 1) (Suc i) m)"
  by pat_completeness auto
termination
  by (relation "measure (\<lambda>(len, i, m). unat len)") (auto simp: unat_minus_one unat_gt_0)

declare convert_loop16.simps [simp del] convert_loop32.simps [simp del]

definition convert_to_24 :: "drmModeFB \<Rightarrow> memory \<Rightarrow> uint24_t list" where
  "convert_to_24 fb from =
     (let len = width fb * height fb
      in if bpp fb = 16 then convert_loop16 len 0 from else convert_loop32 len 0 from)"


section \<open>The process and the world around it\<close>

text \<open>
  \<^verbatim>\<open>save_png\<close> and \<^verbatim>\<open>main\<close> talk to the kernel, to libdrm and to the C library. The model
  threads a process state through them: the calls made so far, in order, and the table of
  open file descriptors. What the outside world answers to each call is an input of the
  model (the record \<open>world\<close> below), so that every run of the program is the model's
  run against some world.
\<close>

datatype fobj =
    Stdio
  | CardNode nat \<comment> \<open>\<^verbatim>\<open>/dev/dri/card<k>\<close>\<close>
  | OutFile nat \<comment> \<open>the stream behind \<^verbatim>\<open><png_fn>-<plane>.raw\<close>\<close>
  | PrimeBuf nat nat \<comment> \<open>the exported buffer of memory plane \<open>p\<close> of display plane \<open>i\<close>\<close>

datatype client_cap = DRM_CLIENT_CAP_ATOMIC | DRM_CLIENT_CAP_UNIVERSAL_PLANES

datatype message =
    Usage \<comment> \<open>\<^verbatim>\<open>Usage: kmsgrab <output.png>\<close>\<close>
  | CouldNotOpen \<comment> \<open>\<^verbatim>\<open>Could not open KMS/DRM device.\<close>\<close>
  | NoAtomicCap \<comment> \<open>\<^verbatim>\<open>Unable to set atomic cap.\<close>\<close>
  | NoUniversalCap \<comment> \<open>\<^verbatim>\<open>Unable to set universal planes cap.\<close>\<close>
  | NoPlaneResources \<comment> \<open>\<^verbatim>\<open>Unable to get plane resources.\<close>\<close>
  | NoFramebuffer uint32_t \<comment> \<open>\<^verbatim>\<open>Failed to get framebuffer <fb_id>: ...\<close>\<close>
  | NoScreenshot int \<comment> \<open>\<^verbatim>\<open>Failed to take screenshot: strerror(-err)\<close>\<close>
  | NoOutputFile \<comment> \<open>\<^verbatim>\<open>Failed to open output file: ...\<close>\<close>
  | NoMmap nat \<comment> \<open>\<^verbatim>\<open>Unable to mmap prime buffer plane <p>\<close>\<close>

text \<open>
  One event per library or system call, with its arguments and what it returned. Calls of
  the plane loop carry the display-plane index \<open>i\<close>, calls of \<^verbatim>\<open>save_png\<close> also the
  memory-plane index \<open>p\<close>.
\<close>

datatype event =
    Msg message
  | Open nat "nat option" \<comment> \<open>\<^verbatim>\<open>open("/dev/dri/card<k>")\<close> and the descriptor it returned\<close>
  | Close int
  | GetCap nat \<comment> \<open>\<^verbatim>\<open>drmGetCap(fd, DRM_CAP_DUMB_BUFFER, &has_dumb)\<close>\<close>
  | SetClientCap nat client_cap int
  | GetPlaneResources nat bool
  | GetPlane nat uint32_t bool \<comment> \<open>\<open>i\<close>, \<^verbatim>\<open>planes[i]\<close>, whether a plane came back\<close>
  | FreePlane nat
  | GetFB2 nat uint32_t bool \<comment> \<open>\<open>i\<close>, \<^verbatim>\<open>fb_id\<close>, whether a buffer descriptor came back\<close>
  | Fopen string nat "nat option" \<comment> \<open>\<^verbatim>\<open>png_fn\<close>, \<^verbatim>\<open>plane\<close>, the stream's descriptor\<close>
  | PrimeHandleToFD nat nat uint32_t "nat option"
      \<comment> \<open>\<open>i\<close>, \<open>p\<close>, \<^verbatim>\<open>handles[p]\<close>, \<^verbatim>\<open>prime_fd\<close>\<close>
  | Mmap nat nat uint32_t nat "int option"
      \<comment> \<open>\<open>i\<close>, \<open>p\<close>, length, \<^verbatim>\<open>prime_fd\<close>, \<^verbatim>\<open>errno\<close> on \<^verbatim>\<open>MAP_FAILED\<close>\<close>
  | Fwrite nat nat uint32_t nat \<comment> \<open>\<open>i\<close>, \<open>p\<close>, length, items written\<close>
  | Munmap nat nat uint32_t
  | Fclose nat
  | FreeFB uint64_t \<comment> \<open>\<^verbatim>\<open>drmModeFreeFB(fb)\<close> and the pointer it is given\<close>
  | FreePlaneResources

record proc =
  trace :: "event list"
  fdtab :: "(nat \<times> fobj) list"

definition emit :: "event \<Rightarrow> proc \<Rightarrow> proc" where
  "emit e s = s\<lparr>trace := trace s @ [e]\<rparr>"

text \<open>A new descriptor is the lowest number that is not open (POSIX).\<close>

definition lowest_free :: "(nat \<times> fobj) list \<Rightarrow> nat" where
  "lowest_free tab = hd (filter (\<lambda>n. n \<notin> set (map fst tab)) [0..<Suc (length tab)])"

definition fd_alloc :: "fobj \<Rightarrow> proc \<Rightarrow> nat \<times> proc" where
  "fd_alloc obj s =
     (let fd = lowest_free (fdtab s) in (fd, s\<lparr>fdtab := fdtab s @ [(fd, obj)]\<rparr>))"

definition fd_release :: "int \<Rightarrow> proc \<Rightarrow> proc" where
  "fd_release fd s = s\<lparr>fdtab := filter (\<lambda>(n, obj). int n \<noteq> fd) (fdtab s)\<rparr>"

text \<open>\<^verbatim>\<open>close(fd)\<close>: a descriptor that is not open (or negative) is left alone (\<^verbatim>\<open>EBADF\<close>).\<close>

definition sys_close :: "int \<Rightarrow> proc \<Rightarrow> proc" where
  "sys_close fd s = emit (Close fd) (fd_release fd s)"

text \<open>The process starts with standard input, output and error open.\<close>

definition proc0 :: proc where
  "proc0 = \<lparr>trace = [], fdtab = [(0, Stdio), (1, Stdio), (2, Stdio)]\<rparr>"

subsection \<open>What the world answers\<close>

text \<open>
  The fields of libdrm's \<^verbatim>\<open>drmModePlane\<close> and \<^verbatim>\<open>drmModeFB2\<close> that the program reads. The
  C arrays \<^verbatim>\<open>handles[4]\<close> and \<^verbatim>\<open>pitches[4]\<close> are given by their element at each index;
  the program reads the indices 0 to 3 only.
\<close>

record drmModePlane =
  fb_id :: uint32_t
  crtc_id :: uint32_t

record drmModeFB2 =
  height :: uint32_t
  handles :: "nat \<Rightarrow> uint32_t"
  pitches :: "nat \<Rightarrow> uint32_t"

text \<open>
  A device node of the namespace \<^verbatim>\<open>/dev/dri/card0\<close>, \<^verbatim>\<open>card1\<close>, ...: whether \<^verbatim>\<open>open\<close>
  succeeds on it, what \<^verbatim>\<open>drmGetCap\<close> returns and what it stores in \<^verbatim>\<open>has_dumb\<close>.
\<close>

record card_node =
  openable :: bool
  cap_ret :: int
  has_dumb :: uint64_t

text \<open>
  What the world answers while the display plane at one index of \<^verbatim>\<open>plane_res->planes\<close>
  is processed: the plane identifier, the result of \<^verbatim>\<open>drmModeGetPlane\<close> (\<open>None\<close> is
  \<^verbatim>\<open>NULL\<close>), of \<^verbatim>\<open>drmModeGetFB2\<close>, of \<^verbatim>\<open>fopen\<close> (when it fails, \<open>Some\<close> of the value that
  \<^verbatim>\<open>errno\<close> holds when \<^verbatim>\<open>ret = -errno\<close> is executed), and for each memory plane \<open>p\<close> the
  return value of \<^verbatim>\<open>drmPrimeHandleToFD\<close>, the result of \<^verbatim>\<open>mmap\<close> (\<open>Some errno\<close> is
  \<^verbatim>\<open>MAP_FAILED\<close>) and the return value of \<^verbatim>\<open>fwrite\<close>. \<^verbatim>\<open>save_png\<close> never initialises its
  local \<^verbatim>\<open>ret\<close>; \<open>ret_init\<close> is the value the variable happens to hold.
\<close>

record plane_io =
  plane_id :: uint32_t
  get_plane :: "drmModePlane option"
  get_fb2 :: "drmModeFB2 option"
  fopen_errno :: "int option"
  export_ret :: "nat \<Rightarrow> int"
  mmap_errno :: "nat \<Rightarrow> int option"
  fwrite_ret :: "nat \<Rightarrow> nat"
  ret_init :: int

text \<open>
  The whole world of one run: the device nodes that exist (a node past the end of the list
  does not exist, \<^verbatim>\<open>open\<close> fails on it), whether the second \<^verbatim>\<open>open\<close> of the chosen node
  succeeds, the return values of the two \<^verbatim>\<open>drmSetClientCap\<close> calls, the result of
  \<^verbatim>\<open>drmModeGetPlaneResources\<close> (\<open>None\<close> is \<^verbatim>\<open>NULL\<close>) with the answers for each listed
  plane, and the values that the two locals of \<^verbatim>\<open>main\<close> which are never assigned happen to
  hold: the descriptor number in \<^verbatim>\<open>prime_fd\<close> and the address in the pointer \<^verbatim>\<open>fb\<close> (0 is
  \<^verbatim>\<open>NULL\<close>).
\<close>

record world =
  cards :: "card_node list"
  reopen_ok :: bool
  atomic_ret :: int
  universal_ret :: int
  plane_res :: "plane_io list option"
  prime_fd_init :: int
  fb_init :: uint64_t


section \<open>\<^verbatim>\<open>save_png\<close>\<close>

text \<open>
  \<^verbatim>\<open>size = fb2->pitches[p] * fb2->height / (!p ? 1 : 2)\<close>, computed in \<^verbatim>\<open>unsigned int\<close>: the
  product wraps around at \<open>2 ^ 32\<close> before it is divided.
\<close>

definition plane_size :: "drmModeFB2 \<Rightarrow> nat \<Rightarrow> uint32_t" where
  "plane_size fb2 p = pitches fb2 p * drmModeFB2.height fb2 div (if p = 0 then 1 else 2)"

text \<open>
  The body of \<^verbatim>\<open>for (p = 0; p < 4; p++)\<close>, on the pair of the local \<^verbatim>\<open>ret\<close> and the
  process state. \<^verbatim>\<open>drmPrimeHandleToFD\<close> opens a new descriptor when it succeeds.
\<close>

definition save_plane ::
  "drmModeFB2 \<Rightarrow> nat \<Rightarrow> plane_io \<Rightarrow> nat \<Rightarrow> int \<times> proc \<Rightarrow> int \<times> proc" where
  "save_plane fb2 i io p = (\<lambda>(ret, s).
     if handles fb2 p = 0 then (ret, s)
     else if export_ret io p < 0 then
       (ret, emit (PrimeHandleToFD i p (handles fb2 p) None) s)
     else
       let (prime_fd, s1) = fd_alloc (PrimeBuf i p) s;
           s2 = emit (PrimeHandleToFD i p (handles fb2 p) (Some prime_fd)) s1;
           sz = plane_size fb2 p;
           (ret', s3) =
             (case mmap_errno io p of
                Some e \<Rightarrow>
                  (- e, emit (Msg (NoMmap p)) (emit (Mmap i p sz prime_fd (Some e)) s2))
              | None \<Rightarrow>
                  (ret, emit (Munmap i p sz)
                          (emit (Fwrite i p sz (fwrite_ret io p))
                             (emit (Mmap i p sz prime_fd None) s2))))
       in (ret', sys_close (int prime_fd) s3))"

function save_loop ::
  "drmModeFB2 \<Rightarrow> nat \<Rightarrow> plane_io \<Rightarrow> nat \<Rightarrow> int \<times> proc \<Rightarrow> int \<times> proc" where
  "save_loop fb2 i io p st =
     (if p < 4 then save_loop fb2 i io (Suc p) (save_plane fb2 i io p st) else st)"
  by pat_completeness auto
termination
  by (relation "measure (\<lambda>(fb2, i, io, p, st). 4 - p)") auto

declare save_loop.simps [simp del]

text \<open>
  \<^verbatim>\<open>sprintf(filename, "%s-%u.raw", png_fn, plane)\<close>: the characters printed, with \<^verbatim>\<open>%u\<close> as
  the decimal digits of \<^verbatim>\<open>plane\<close>. \<^verbatim>\<open>sprintf\<close> stores them and a terminating null byte into
  \<^verbatim>\<open>char filename[64]\<close> without looking at the size of the array.
\<close>

fun decimal :: "nat \<Rightarrow> string" where
  "decimal n =
     (if n < 10 then [''0123456789'' ! n]
      else decimal (n div 10) @ [''0123456789'' ! (n mod 10)])"

declare decimal.simps [simp del]

definition filename :: "string \<Rightarrow> nat \<Rightarrow> string" where
  "filename png_fn plane_idx = png_fn @ ''-'' @ decimal plane_idx @ ''.raw''"

text \<open>
  \<^verbatim>\<open>save_png(fb2, drm_fd, png_fn, plane)\<close> returns the value of \<^verbatim>\<open>ret\<close>. When the name and its
  null byte need more than the 64 bytes of \<^verbatim>\<open>filename\<close>, \<^verbatim>\<open>sprintf\<close> writes past the end of the
  array; what the program does from there on is undefined, and the model ends the call at
  that point with \<open>None\<close> for a call that does not return. The output stream holds a
  descriptor from \<^verbatim>\<open>fopen\<close> to \<^verbatim>\<open>fclose\<close>; the event of \<^verbatim>\<open>fopen\<close> names the file by \<^verbatim>\<open>png_fn\<close> and
  \<^verbatim>\<open>plane\<close>. The message printed when \<^verbatim>\<open>fopen\<close> fails is recorded without its text (it
  prints \<^verbatim>\<open>strerror(-err)\<close> of the local \<^verbatim>\<open>err\<close>, which has no value yet).
\<close>

definition save_png ::
  "drmModeFB2 \<Rightarrow> nat \<Rightarrow> string \<Rightarrow> nat \<Rightarrow> plane_io \<Rightarrow> proc \<Rightarrow> int option \<times> proc" where
  "save_png fb2 drm_fd png_fn plane_idx io s =
     (if 64 < length (filename png_fn plane_idx) + 1 then (None, s)
      else
        case fopen_errno io of
          Some e \<Rightarrow>
            (Some (- e), emit (Msg NoOutputFile) (emit (Fopen png_fn plane_idx None) s))
        | None \<Rightarrow>
            let (pngfile, s1) = fd_alloc (OutFile plane_idx) s;
                s2 = emit (Fopen png_fn plane_idx (Some pngfile)) s1;
                (ret, s3) = save_loop fb2 plane_idx io 0 (ret_init io, s2)
            in (Some ret, emit (Fclose pngfile) (fd_release (int pngfile) s3)))"


section \<open>\<^verbatim>\<open>main\<close>\<close>

text \<open>
  The probe loop \<^verbatim>\<open>for (card = 0; ; card++)\<close> (lines 130 to 144), by recursion on the
  device nodes from \<^verbatim>\<open>card\<close> (here \<open>cardno\<close>) on. It ends with \<open>None\<close> at
  \<^verbatim>\<open>goto out_return\<close> and with the index of the accepted node and the descriptor left in
  \<^verbatim>\<open>drm_fd\<close> at \<^verbatim>\<open>break\<close>. The loop ends at the latest at the first node that does not exist;
  the \<^verbatim>\<open>unsigned int\<close> counter does not wrap before that in a namespace of fewer than
  \<open>2 ^ 32\<close> nodes.
\<close>

fun probe :: "card_node list \<Rightarrow> nat \<Rightarrow> proc \<Rightarrow> (nat \<times> nat) option \<times> proc" where
  "probe [] cardno s = (None, emit (Msg CouldNotOpen) (emit (Open cardno None) s))"
| "probe (c # cs) cardno s =
     (if \<not> openable c then (None, emit (Msg CouldNotOpen) (emit (Open cardno None) s))
      else
        let (drm_fd, s1) = fd_alloc (CardNode cardno) s;
            s2 = emit (GetCap drm_fd) (emit (Open cardno (Some drm_fd)) s1)
        in if 0 \<le> cap_ret c \<and> has_dumb c \<noteq> 0 then (Some (cardno, drm_fd), s2)
           else probe cs (Suc cardno) (sys_close (int drm_fd) s2))"

text \<open>
  Lines 130 to 150: the probe loop, then the second \<^verbatim>\<open>open\<close> of the node whose name is
  still in \<^verbatim>\<open>buf\<close>, which overwrites \<^verbatim>\<open>drm_fd\<close>.
\<close>

definition locate :: "world \<Rightarrow> proc \<Rightarrow> (nat \<times> nat) option \<times> proc" where
  "locate w s =
     (case probe (cards w) 0 s of
        (None, s1) \<Rightarrow> (None, s1)
      | (Some (cardno, probe_fd), s1) \<Rightarrow>
          if \<not> reopen_ok w then (None, emit (Msg CouldNotOpen) (emit (Open cardno None) s1))
          else
            let (drm_fd, s2) = fd_alloc (CardNode cardno) s1
            in (Some (cardno, drm_fd), emit (Open cardno (Some drm_fd)) s2))"

text \<open>
  How the process ends: \<^verbatim>\<open>return retval\<close> with \<^verbatim>\<open>EXIT_SUCCESS\<close> = 0 or \<^verbatim>\<open>EXIT_FAILURE\<close> = 1, or
  at one of three points where the behaviour of the program is undefined and the model
  ends the run without an exit status: the read through a null pointer, the overrun of
  \<^verbatim>\<open>filename\<close> in \<^verbatim>\<open>save_png\<close>, and the release of a pointer that is not the address of an
  allocation.
\<close>

datatype outcome = Exit int | Segfault | BufferOverrun | InvalidFree

text \<open>
  The exit labels of \<^verbatim>\<open>main\<close>, each with the value of \<^verbatim>\<open>retval\<close> it is reached with; each
  falls through to the next. \<^verbatim>\<open>main\<close> never assigns its locals \<^verbatim>\<open>prime_fd\<close> and \<^verbatim>\<open>fb\<close>.
  \<^verbatim>\<open>close(prime_fd)\<close> closes whatever descriptor the value in \<^verbatim>\<open>prime_fd\<close> names.
  \<^verbatim>\<open>drmModeFreeFB(fb)\<close> returns at once when \<^verbatim>\<open>fb\<close> is \<^verbatim>\<open>NULL\<close> and hands any other pointer to
  \<^verbatim>\<open>free\<close>; as the program never calls \<^verbatim>\<open>drmModeGetFB\<close>, a value other than \<^verbatim>\<open>NULL\<close> is not a
  buffer descriptor that could be released, the behaviour of \<^verbatim>\<open>free\<close> on it is undefined,
  and the model ends the run there.
\<close>

definition out_return :: "int \<Rightarrow> proc \<Rightarrow> outcome \<times> proc" where
  "out_return retval s = (Exit retval, s)"

definition out_close_fd :: "nat \<Rightarrow> int \<Rightarrow> proc \<Rightarrow> outcome \<times> proc" where
  "out_close_fd drm_fd retval s = out_return retval (sys_close (int drm_fd) s)"

definition out_free_resources :: "nat \<Rightarrow> int \<Rightarrow> proc \<Rightarrow> outcome \<times> proc" where
  "out_free_resources drm_fd retval s = out_close_fd drm_fd retval (emit FreePlaneResources s)"

definition out_free_fb :: "world \<Rightarrow> nat \<Rightarrow> int \<Rightarrow> proc \<Rightarrow> outcome \<times> proc" where
  "out_free_fb w drm_fd retval s =
     (if fb_init w = 0 then out_free_resources drm_fd retval (emit (FreeFB 0) s)
      else (InvalidFree, emit (FreeFB (fb_init w)) s))"

definition out_close_prime_fd :: "world \<Rightarrow> nat \<Rightarrow> int \<Rightarrow> proc \<Rightarrow> outcome \<times> proc" where
  "out_close_prime_fd w drm_fd retval s =
     out_free_fb w drm_fd retval (sys_close (prime_fd_init w) s)"

text \<open>
  The plane loop \<^verbatim>\<open>for (i = 0; i < plane_res->count_planes; i++)\<close> (lines 168 to 191), by
  recursion on the planes from \<open>i\<close> on. It ends by running off the list, by one of the two
  \<^verbatim>\<open>goto\<close>s, by reading \<^verbatim>\<open>plane->fb_id\<close> through the \<^verbatim>\<open>NULL\<close> that \<^verbatim>\<open>drmModeGetPlane\<close>
  returned, or in a call of \<^verbatim>\<open>save_png\<close> that overruns \<^verbatim>\<open>filename\<close>.
\<close>

declare probe.simps [simp del]

datatype jump = LoopDone | GotoClosePrimeFd | GotoFreeResources | NullDeref | Overrun

fun plane_loop :: "nat \<Rightarrow> string \<Rightarrow> plane_io list \<Rightarrow> nat \<Rightarrow> proc \<Rightarrow> jump \<times> proc" where
  "plane_loop drm_fd png_fn [] i s = (LoopDone, s)"
| "plane_loop drm_fd png_fn (io # ios) i s =
     (case get_plane io of
        None \<Rightarrow> (NullDeref, emit (GetPlane i (plane_id io) False) s)
      | Some pl \<Rightarrow>
          let s1 = emit (FreePlane i) (emit (GetPlane i (plane_id io) True) s)
          in if fb_id pl = 0 \<or> crtc_id pl = 0 then plane_loop drm_fd png_fn ios (Suc i) s1
             else
               (case get_fb2 io of
                  None \<Rightarrow>
                    (GotoFreeResources,
                     emit (Msg (NoFramebuffer (fb_id pl))) (emit (GetFB2 i (fb_id pl) False) s1))
                | Some f \<Rightarrow>
                    (case save_png f drm_fd png_fn i io (emit (GetFB2 i (fb_id pl) True) s1) of
                       (None, s2) \<Rightarrow> (Overrun, s2)
                     | (Some err, s2) \<Rightarrow>
                         if err < 0 then (GotoClosePrimeFd, emit (Msg (NoScreenshot err)) s2)
                         else plane_loop drm_fd png_fn ios (Suc i) s2)))"

declare plane_loop.simps [simp del]

text \<open>
  What follows the plane loop: \<^verbatim>\<open>retval = EXIT_SUCCESS\<close> and the fall through all exit
  labels when the loop ran to its end, otherwise the label the loop jumped to, with
  \<^verbatim>\<open>retval\<close> still \<^verbatim>\<open>EXIT_FAILURE\<close>.
\<close>

fun unwind :: "world \<Rightarrow> nat \<Rightarrow> jump \<times> proc \<Rightarrow> outcome \<times> proc" where
  "unwind w drm_fd (LoopDone, s) = out_close_prime_fd w drm_fd 0 s"
| "unwind w drm_fd (GotoClosePrimeFd, s) = out_close_prime_fd w drm_fd 1 s"
| "unwind w drm_fd (GotoFreeResources, s) = out_free_resources drm_fd 1 s"
| "unwind w drm_fd (NullDeref, s) = (Segfault, s)"
| "unwind w drm_fd (Overrun, s) = (BufferOverrun, s)"

definition main :: "world \<Rightarrow> string list \<Rightarrow> outcome \<times> proc" where
  "main w argv =
     (if length argv < 2 then out_return 1 (emit (Msg Usage) proc0)
      else
        case locate w proc0 of
          (None, s1) \<Rightarrow> out_return 1 s1
        | (Some (cardno, drm_fd), s1) \<Rightarrow>
            let s2 = emit (SetClientCap drm_fd DRM_CLIENT_CAP_ATOMIC (atomic_ret w)) s1
            in if atomic_ret w \<noteq> 0 then out_close_fd drm_fd 1 (emit (Msg NoAtomicCap) s2)
               else
                 let s3 = emit (SetClientCap drm_fd DRM_CLIENT_CAP_UNIVERSAL_PLANES
                                  (universal_ret w)) s2
                 in if universal_ret w \<noteq> 0 then
                      out_close_fd drm_fd 1 (emit (Msg NoUniversalCap) s3)
                    else
                      (case plane_res w of
                         None \<Rightarrow>
                           out_close_fd drm_fd 1
                             (emit (Msg NoPlaneResources)
                                (emit (GetPlaneResources drm_fd False) s3))
                       | Some ios \<Rightarrow>
                           unwind w drm_fd
                             (plane_loop drm_fd (argv ! 1) ios 0
                                (emit (GetPlaneResources drm_fd True) s3))))"


section \<open>Observations on a run\<close>

text \<open>
  The properties below are stated on the trace of a run. These functions classify its
  events: the memory plane an event of \<^verbatim>\<open>save_png\<close> works on, the display plane a buffer
  resolution is for, the calls that enumerate planes, and the calls that failed.
\<close>

fun memory_plane_of :: "event \<Rightarrow> (nat \<times> nat) option" where
  "memory_plane_of (PrimeHandleToFD i p h fd) = Some (i, p)"
| "memory_plane_of (Mmap i p sz fd e) = Some (i, p)"
| "memory_plane_of (Fwrite i p sz n) = Some (i, p)"
| "memory_plane_of (Munmap i p sz) = Some (i, p)"
| "memory_plane_of _ = None"

fun resolved_plane :: "event \<Rightarrow> nat option" where
  "resolved_plane (GetFB2 i fb ok) = Some i"
| "resolved_plane _ = None"

fun queried_plane :: "event \<Rightarrow> nat option" where
  "queried_plane (GetPlane i pl ok) = Some i"
| "queried_plane _ = None"

fun enumerates :: "event \<Rightarrow> bool" where
  "enumerates (GetPlaneResources fd ok) = True"
| "enumerates (GetPlane i pl ok) = True"
| "enumerates (FreePlane i) = True"
| "enumerates (GetFB2 i fb ok) = True"
| "enumerates _ = False"

fun null_plane :: "event \<Rightarrow> bool" where
  "null_plane (GetPlane i pl ok) = (\<not> ok)"
| "null_plane _ = False"

fun mmap_call :: "event \<Rightarrow> bool" where
  "mmap_call (Mmap i p sz fd e) = True"
| "mmap_call _ = False"

fun mmap_failed :: "event \<Rightarrow> bool" where
  "mmap_failed (Mmap i p sz fd (Some e)) = True"
| "mmap_failed _ = False"

text \<open>
  The memory planes on which \<^verbatim>\<open>save_png\<close> gets \<^verbatim>\<open>MAP_FAILED\<close>: those that are present, are
  exported, and for which the world answers \<^verbatim>\<open>mmap\<close> with an error.
\<close>

definition mmap_fails :: "drmModeFB2 \<Rightarrow> plane_io \<Rightarrow> nat \<Rightarrow> bool" where
  "mmap_fails fb2 io p =
     (handles fb2 p \<noteq> 0 \<and> 0 \<le> export_ret io p \<and> mmap_errno io p \<noteq> None)"

text \<open>
  The calls whose failure \<^verbatim>\<open>main\<close> answers with \<^verbatim>\<open>EXIT_FAILURE\<close>: a failed \<^verbatim>\<open>open\<close> of a
  device node, a non-zero \<^verbatim>\<open>drmSetClientCap\<close>, \<^verbatim>\<open>NULL\<close> from \<^verbatim>\<open>drmModeGetPlaneResources\<close> or
  \<^verbatim>\<open>drmModeGetFB2\<close>, a failed \<^verbatim>\<open>fopen\<close> and \<^verbatim>\<open>MAP_FAILED\<close> from \<^verbatim>\<open>mmap\<close>.
\<close>

fun failed :: "event \<Rightarrow> bool" where
  "failed (Open k None) = True"
| "failed (SetClientCap fd c ret) = (ret \<noteq> 0)"
| "failed (GetPlaneResources fd ok) = (\<not> ok)"
| "failed (GetFB2 i fb ok) = (\<not> ok)"
| "failed (Fopen fn i None) = True"
| "failed (Mmap i p sz fd (Some e)) = True"
| "failed _ = False"

text \<open>
  Of these, the calls that \<^verbatim>\<open>main\<close> makes itself, outside \<^verbatim>\<open>save_png\<close>: their failures are
  the device-open, capability and buffer-resolution failures, and the failure to get the
  plane resources.
\<close>

fun main_failed :: "event \<Rightarrow> bool" where
  "main_failed (Open k None) = True"
| "main_failed (SetClientCap fd c ret) = (ret \<noteq> 0)"
| "main_failed (GetPlaneResources fd ok) = (\<not> ok)"
| "main_failed (GetFB2 i fb ok) = (\<not> ok)"
| "main_failed _ = False"

text \<open>An event without what \<^verbatim>\<open>fwrite\<close> returned.\<close>

fun forget_written :: "event \<Rightarrow> event" where
  "forget_written (Fwrite i p sz n) = Fwrite i p sz 0"
| "forget_written e = e"

text \<open>
  The device nodes that a process holds open: for each open descriptor that refers to a
  device node, in the order of the descriptor table, the index of the node.
\<close>

fun card_of :: "nat \<times> fobj \<Rightarrow> nat option" where
  "card_of (fd, CardNode k) = Some k"
| "card_of (fd, obj) = None"

definition open_cards :: "proc \<Rightarrow> nat list" where
  "open_cards s = List.map_filter card_of (fdtab s)"

text \<open>
  \<^verbatim>\<open>errno\<close> is positive after a failed call (POSIX); a world is well formed when the error
  numbers it reports for \<^verbatim>\<open>fopen\<close> and for \<^verbatim>\<open>mmap\<close> on the four memory planes are.
\<close>

definition errnos_positive :: "plane_io \<Rightarrow> bool" where
  "errnos_positive io =
     ((case fopen_errno io of None \<Rightarrow> True | Some e \<Rightarrow> 0 < e) \<and>
      list_all (\<lambda>p. case mmap_errno io p of None \<Rightarrow> True | Some e \<Rightarrow> 0 < e) [0, 1, 2, 3])"

definition world_errnos_positive :: "world \<Rightarrow> bool" where
  "world_errnos_positive w =
     (case plane_res w of None \<Rightarrow> True | Some ios \<Rightarrow> list_all errnos_positive ios)"

text \<open>
  The worlds in which the local \<^verbatim>\<open>ret\<close> of \<^verbatim>\<open>save_png\<close> never starts out negative, and the
  runs in which the file name of every listed plane fits into \<^verbatim>\<open>filename\<close> with its null
  byte.
\<close>

definition ret_init_nonneg :: "world \<Rightarrow> bool" where
  "ret_init_nonneg w =
     (case plane_res w of None \<Rightarrow> True | Some ios \<Rightarrow> list_all (\<lambda>io. 0 \<le> ret_init io) ios)"

definition names_fit :: "world \<Rightarrow> string list \<Rightarrow> bool" where
  "names_fit w argv =
     (case plane_res w of
        None \<Rightarrow> True
      | Some ios \<Rightarrow> list_all (\<lambda>i. length (filename (argv ! 1) i) < 64) [0..<length ios])"

text \<open>
  Re-quantising a converted sample to 5, 6 and 5 bits and packing them as a 16-bit pixel,
  in the wording of the specification's round-trip property.
\<close>

definition requantize_565 :: "uint24_t \<Rightarrow> uint16_t" where
  "requantize_565 q =
     push_bit 11 (ucast (drop_bit 3 (r q))) OR push_bit 5 (ucast (drop_bit 2 (g q)))
       OR ucast (drop_bit 3 (b q))"

section \<open>Concrete inputs\<close>

text \<open>
  Frame buffers, memories and worlds on which the theorems below are evaluated. First a
  32-bit buffer of width 2 and height 1 over the bytes \<open>00 00 FF 00 10 20 30 00\<close>.
\<close>

definition fb_2x1 :: drmModeFB where
  "fb_2x1 = \<lparr>width = 2, height = 1, bpp = 32\<rparr>"

definition mem_2x1 :: memory where
  "mem_2x1 = (\<lambda>a. [0x00, 0x00, 0xFF, 0x00, 0x10, 0x20, 0x30, 0x00] ! a)"

text \<open>A frame buffer and a buffer descriptor whose dimensions multiply to \<open>2 ^ 32\<close>.\<close>

definition fb_64k :: drmModeFB where
  "fb_64k = \<lparr>width = 65536, height = 65536, bpp = 32\<rparr>"

definition mem_zero :: memory where
  "mem_zero = (\<lambda>a. 0)"

definition fb2_64k :: drmModeFB2 where
  "fb2_64k = \<lparr>height = 65536, handles = (\<lambda>p. 1), pitches = (\<lambda>p. 65536)\<rparr>"

text \<open>
  A buffer with one memory plane (handle 7, pitch 8, height 2), and the answers of a
  world in which everything about a display plane succeeds.
\<close>

definition fb2_one :: drmModeFB2 where
  "fb2_one = \<lparr>height = 2, handles = (\<lambda>p. if p = 0 then 7 else 0), pitches = (\<lambda>p. 8)\<rparr>"

definition io_ok :: plane_io where
  "io_ok = \<lparr>plane_id = 31, get_plane = Some \<lparr>fb_id = 40, crtc_id = 50\<rparr>,
     get_fb2 = Some fb2_one, fopen_errno = None, export_ret = (\<lambda>p. 0),
     mmap_errno = (\<lambda>p. None), fwrite_ret = (\<lambda>p. 1), ret_init = 0\<rparr>"

text \<open>
  Variations: \<^verbatim>\<open>fwrite\<close> writes nothing; \<^verbatim>\<open>mmap\<close> fails with \<^verbatim>\<open>ENOMEM\<close> (12); the plane is
  bound to no buffer; \<^verbatim>\<open>drmModeGetPlane\<close> returns \<^verbatim>\<open>NULL\<close>.
\<close>

definition io_nowrite :: plane_io where
  "io_nowrite = io_ok\<lparr>fwrite_ret := (\<lambda>p. 0)\<rparr>"

definition io_nomap :: plane_io where
  "io_nomap = io_ok\<lparr>mmap_errno := (\<lambda>p. Some 12)\<rparr>"

definition io_inactive :: plane_io where
  "io_inactive = io_ok\<lparr>get_plane := Some \<lparr>fb_id = 0, crtc_id = 50\<rparr>\<rparr>"

definition io_null :: plane_io where
  "io_null = io_ok\<lparr>get_plane := None\<rparr>"

text \<open>
  Worlds with two device nodes, the second of which has dumb buffers, and two display
  planes; \<^verbatim>\<open>drmSetClientCap\<close> fails with \<^verbatim>\<open>-EINVAL\<close> in \<open>w_nocap\<close>.
\<close>

definition card_plain :: card_node where
  "card_plain = \<lparr>openable = True, cap_ret = 0, has_dumb = 0\<rparr>"

definition card_dumb :: card_node where
  "card_dumb = \<lparr>openable = True, cap_ret = 0, has_dumb = 1\<rparr>"

definition w_ok :: world where
  "w_ok = \<lparr>cards = [card_plain, card_dumb], reopen_ok = True, atomic_ret = 0,
     universal_ret = 0, plane_res = Some [io_inactive, io_ok], prime_fd_init = - 1,
     fb_init = 0\<rparr>"

definition w_nocap :: world where
  "w_nocap = w_ok\<lparr>atomic_ret := - 22\<rparr>"

definition w_nomap :: world where
  "w_nomap = w_ok\<lparr>plane_res := Some [io_nomap, io_ok]\<rparr>"

definition w_null :: world where
  "w_null = w_ok\<lparr>plane_res := Some [io_null, io_ok]\<rparr>"

definition argv2 :: "string list" where
  "argv2 = [''kmsgrab'', ''out'']"


section \<open>Properties of the pixel conversion\<close>

subsection \<open>The masks as bit ranges\<close>

lemma mask_1f: "(0x1f :: uint32_t) = mask 5"
  by (simp add: mask_eq_exp_minus_1)

lemma mask_7e0: "(0x7e0 :: uint32_t) = push_bit 5 (mask 6)"
  by (simp add: mask_eq_exp_minus_1 push_bit_eq_mult)

lemma mask_f800: "(0xf800 :: uint32_t) = push_bit 11 (mask 5)"
  by (simp add: mask_eq_exp_minus_1 push_bit_eq_mult)

lemma mask_ff: "(0xff :: uint32_t) = mask 8"
  by (simp add: mask_eq_exp_minus_1)

lemma mask16_1f: "(0x1f :: uint16_t) = mask 5"
  by (simp add: mask_eq_exp_minus_1)

lemma mask16_7e0: "(0x7e0 :: uint16_t) = push_bit 5 (mask 6)"
  by (simp add: mask_eq_exp_minus_1 push_bit_eq_mult)

lemma mask16_f800: "(0xf800 :: uint16_t) = push_bit 11 (mask 5)"
  by (simp add: mask_eq_exp_minus_1 push_bit_eq_mult)

lemma mask8_7: "(7 :: uint8_t) = mask 3"
  by (simp add: mask_eq_exp_minus_1)

lemma mask8_3: "(3 :: uint8_t) = mask 2"
  by (simp add: mask_eq_exp_minus_1)

subsection \<open>16-bit pixels\<close>

text \<open>Which bit of the pixel each bit of a channel is.\<close>

lemma bit_b16: "bit (b (rgb16_to_24 px)) n = (3 \<le> n \<and> n < 8 \<and> bit px (n - 3))"
  unfolding rgb16_to_24_def mask_1f
  by (auto simp: bit_simps)

lemma bit_g16: "bit (g (rgb16_to_24 px)) n = (2 \<le> n \<and> n < 8 \<and> bit px (n + 3))"
  unfolding rgb16_to_24_def mask_7e0
  by (auto simp: bit_simps add.commute dest: bit_imp_le_length)

lemma bit_r16: "bit (r (rgb16_to_24 px)) n = (3 \<le> n \<and> n < 8 \<and> bit px (n + 8))"
  unfolding rgb16_to_24_def mask_f800
  by (auto simp: bit_simps add.commute dest: bit_imp_le_length)

text \<open>The channels in 16-bit arithmetic, without the promotion to \<^verbatim>\<open>int\<close>.\<close>

lemma b16_shifted: "b (rgb16_to_24 px) = ucast (push_bit 3 (px AND 0x1f))"
  unfolding mask16_1f
  by (rule bit_word_eqI) (auto simp: bit_b16 bit_simps)

lemma g16_shifted: "g (rgb16_to_24 px) = ucast (drop_bit 3 (px AND 0x7e0))"
  unfolding mask16_7e0
  by (rule bit_word_eqI) (auto simp: bit_g16 bit_simps add.commute dest: bit_imp_le_length)

lemma r16_shifted: "r (rgb16_to_24 px) = ucast (drop_bit 8 (px AND 0xf800))"
  unfolding mask16_f800
  by (rule bit_word_eqI) (auto simp: bit_r16 bit_simps add.commute dest: bit_imp_le_length)

lemma b16_low: "b (rgb16_to_24 px) AND 7 = 0"
  unfolding mask8_7
  by (rule bit_word_eqI) (auto simp: bit_b16 bit_simps)

lemma g16_low: "g (rgb16_to_24 px) AND 3 = 0"
  unfolding mask8_3
  by (rule bit_word_eqI) (auto simp: bit_g16 bit_simps)

lemma b16_requant: "push_bit 3 (drop_bit 3 (b (rgb16_to_24 px))) = b (rgb16_to_24 px)"
  by (rule bit_word_eqI) (auto simp: bit_b16 bit_simps)

lemma g16_requant: "push_bit 2 (drop_bit 2 (g (rgb16_to_24 px))) = g (rgb16_to_24 px)"
  by (rule bit_word_eqI) (auto simp: bit_g16 bit_simps add.commute)

lemma r16_requant: "push_bit 3 (drop_bit 3 (r (rgb16_to_24 px))) = r (rgb16_to_24 px)"
  by (rule bit_word_eqI) (auto simp: bit_r16 bit_simps add.commute)

lemma requantize_inverse: "requantize_565 (rgb16_to_24 px) = px"
proof (rule bit_word_eqI)
  fix n
  assume "n < LENGTH(16)"
  then consider "n < 5" | "5 \<le> n" "n < 11" | "11 \<le> n" "n < 16"
    by fastforce
  then show "bit (requantize_565 (rgb16_to_24 px)) n = bit px n"
  proof cases
    case 1
    then show ?thesis
      by (auto simp: requantize_565_def bit_b16 bit_g16 bit_r16 bit_simps)
  next
    case 2
    then have "Suc (Suc (n - 2)) = n"
      by simp
    with 2 show ?thesis
      by (auto simp: requantize_565_def bit_b16 bit_g16 bit_r16 bit_simps)
  next
    case 3
    then have "11 + (n - 11) = n"
      by simp
    with 3 show ?thesis
      by (auto simp: requantize_565_def bit_b16 bit_g16 bit_r16 bit_simps)
  qed
qed

text \<open>
  Claim C7. For every 16-bit pixel, \<^verbatim>\<open>rgb16_to_24\<close> yields blue = bits 0 to 4 of the pixel
  shifted left by 3, green = bits 5 to 10 shifted right by 3 and red = bits 11 to 15
  shifted right by 8: bit \<open>n\<close> of blue is bit \<open>n - 3\<close> of the pixel, bit \<open>n\<close> of green is bit
  \<open>n + 3\<close> and bit \<open>n\<close> of red is bit \<open>n + 8\<close>, and the bits of a channel below these are
  clear. So the low 3 bits of blue and the low 2 bits of green are 0; cutting a channel
  back to its 5 or 6 bits and scaling it up again gives the channel back, and converting
  the re-quantised pixel gives the same sample.
\<close>

theorem rgb16_to_24_channels:
  "b (rgb16_to_24 px) = ucast (push_bit 3 (px AND 0x1f))
   \<and> g (rgb16_to_24 px) = ucast (drop_bit 3 (px AND 0x7e0))
   \<and> r (rgb16_to_24 px) = ucast (drop_bit 8 (px AND 0xf800))
   \<and> bit (b (rgb16_to_24 px)) n = (3 \<le> n \<and> n < 8 \<and> bit px (n - 3))
   \<and> bit (g (rgb16_to_24 px)) n = (2 \<le> n \<and> n < 8 \<and> bit px (n + 3))
   \<and> bit (r (rgb16_to_24 px)) n = (3 \<le> n \<and> n < 8 \<and> bit px (n + 8))
   \<and> b (rgb16_to_24 px) AND 7 = 0
   \<and> g (rgb16_to_24 px) AND 3 = 0
   \<and> push_bit 3 (drop_bit 3 (b (rgb16_to_24 px))) = b (rgb16_to_24 px)
   \<and> push_bit 2 (drop_bit 2 (g (rgb16_to_24 px))) = g (rgb16_to_24 px)
   \<and> push_bit 3 (drop_bit 3 (r (rgb16_to_24 px))) = r (rgb16_to_24 px)
   \<and> rgb16_to_24 (requantize_565 (rgb16_to_24 px)) = rgb16_to_24 px"
  by (simp only: b16_shifted [symmetric] g16_shifted [symmetric] r16_shifted [symmetric]
      bit_b16 bit_g16 bit_r16 b16_low g16_low b16_requant g16_requant r16_requant
      requantize_inverse simp_thms)

subsection \<open>32-bit pixels and the conversion loop\<close>

lemma bit_b32: "bit (b (rgb32_to_24 px)) n = (n < 8 \<and> bit px n)"
  unfolding rgb32_to_24_def mask_ff
  by (auto simp: bit_simps)

lemma bit_g32: "bit (g (rgb32_to_24 px)) n = (n < 8 \<and> bit px (n + 8))"
  unfolding rgb32_to_24_def mask_ff
  by (auto simp: bit_simps add.commute)

lemma bit_r32: "bit (r (rgb32_to_24 px)) n = (n < 8 \<and> bit px (n + 16))"
  unfolding rgb32_to_24_def mask_ff
  by (auto simp: bit_simps add.commute)

lemma rgb32_low24:
  "push_bit 16 (ucast (r (rgb32_to_24 px))) OR push_bit 8 (ucast (g (rgb32_to_24 px)))
     OR ucast (b (rgb32_to_24 px)) = take_bit 24 px"
proof (rule bit_word_eqI)
  fix n
  assume "n < LENGTH(32)"
  then consider "n < 8" | "8 \<le> n" "n < 16" | "16 \<le> n" "n < 24" | "24 \<le> n" "n < 32"
    by fastforce
  then show "bit (push_bit 16 (ucast (r (rgb32_to_24 px)))
        OR push_bit 8 (ucast (g (rgb32_to_24 px)))
        OR ucast (b (rgb32_to_24 px)) :: uint32_t) n = bit (take_bit 24 px) n"
    by cases (auto simp: bit_b32 bit_g32 bit_r32 bit_simps)
qed

lemma convert_loop32_map:
  "convert_loop32 len i m = map (\<lambda>k. rgb32_to_24 (load32 m k)) [i ..< i + unat len]"
proof (induction len i m rule: convert_loop32.induct)
  case (1 len i m)
  show ?case
  proof (cases "len = 0")
    case True
    then show ?thesis by (simp add: convert_loop32.simps)
  next
    case False
    then have "unat len = Suc (unat (len - 1))"
      by (simp add: unat_minus_one unat_gt_0)
    with False 1 show ?thesis
      by (subst convert_loop32.simps) (simp add: upt_rec [of i])
  qed
qed

lemma convert_loop16_map:
  "convert_loop16 len i m = map (\<lambda>k. rgb16_to_24 (load16 m k)) [i ..< i + unat len]"
proof (induction len i m rule: convert_loop16.induct)
  case (1 len i m)
  show ?case
  proof (cases "len = 0")
    case True
    then show ?thesis by (simp add: convert_loop16.simps)
  next
    case False
    then have "unat len = Suc (unat (len - 1))"
      by (simp add: unat_minus_one unat_gt_0)
    with False 1 show ?thesis
      by (subst convert_loop16.simps) (simp add: upt_rec [of i])
  qed
qed

text \<open>
  Claim C10, as stated, at a frame buffer of 65536 by 65536 pixels: the sample count
  \<^verbatim>\<open>fb->width * fb->height\<close> wraps around to 0 and nothing is converted, where the claim
  promises \<open>width * height\<close> samples.
\<close>

theorem convert_to_24_count_counterexample:
  "length (convert_to_24 fb_64k mem_zero) \<noteq> unat (width fb_64k) * unat (drmModeFB.height fb_64k)"
  by (simp add: convert_to_24_def fb_64k_def convert_loop32.simps)

text \<open>
  Claim C10, amended. \<^verbatim>\<open>convert_to_24\<close> has a result for every bits-per-pixel value, with no
  error among its results; the number of samples is \<open>width * height\<close> modulo \<open>2 ^ 32\<close>. For
  any value other than 16 it reads the source as 32-bit pixels and converts them in order,
  element \<open>k\<close> of the source giving sample \<open>k\<close>. For every 32-bit pixel blue is
  bits 0 to 7, green bits 8 to 15 and red bits 16 to 23: the low 24 bits are kept and the
  top 8 bits dropped.
\<close>

theorem convert_to_24_other_depths:
  "length (convert_to_24 fb m) = unat (width fb) * unat (drmModeFB.height fb) mod 2 ^ 32
   \<and> (bpp fb \<noteq> 16 \<longrightarrow>
        convert_to_24 fb m =
          map (\<lambda>k. rgb32_to_24 (load32 m k)) [0 ..< unat (width fb * drmModeFB.height fb)])
   \<and> bit (b (rgb32_to_24 px)) n = (n < 8 \<and> bit px n)
   \<and> bit (g (rgb32_to_24 px)) n = (n < 8 \<and> bit px (n + 8))
   \<and> bit (r (rgb32_to_24 px)) n = (n < 8 \<and> bit px (n + 16))
   \<and> push_bit 16 (ucast (r (rgb32_to_24 px))) OR push_bit 8 (ucast (g (rgb32_to_24 px)))
        OR ucast (b (rgb32_to_24 px)) = take_bit 24 px"
  by (simp add: convert_to_24_def Let_def convert_loop16_map convert_loop32_map
      unat_word_ariths bit_b32 bit_g32 bit_r32 rgb32_low24)

theorem convert_to_24_other_depths_witness:
  "bpp fb_2x1 \<noteq> 16
   \<and> convert_to_24 fb_2x1 mem_2x1 = [\<lparr>r = 0xFF, g = 0, b = 0\<rparr>, \<lparr>r = 0x30, g = 0x20, b = 0x10\<rparr>]
   \<and> length (convert_to_24 fb_2x1 mem_2x1) = 2"
proof -
  have depth: "bpp fb_2x1 \<noteq> 16"
    by (simp add: fb_2x1_def)
  have "map (\<lambda>k. rgb32_to_24 (load32 mem_2x1 k)) [0 ..< unat (width fb_2x1 * drmModeFB.height fb_2x1)]
      = [\<lparr>r = 0xFF, g = 0, b = 0\<rparr>, \<lparr>r = 0x30, g = 0x20, b = 0x10\<rparr>]"
    by (simp add: fb_2x1_def mem_2x1_def load32_def rgb32_to_24_def upt_rec)
  with depth convert_to_24_other_depths [of fb_2x1 mem_2x1] show ?thesis
    by simp
qed

section \<open>The process state\<close>

lemma trace_emit [simp]: "trace (emit e s) = trace s @ [e]"
  by (simp add: emit_def)

lemma fdtab_emit [simp]: "fdtab (emit e s) = fdtab s"
  by (simp add: emit_def)

lemma trace_fd_release [simp]: "trace (fd_release fd s) = trace s"
  by (simp add: fd_release_def)

lemma fdtab_fd_release [simp]:
  "fdtab (fd_release fd s) = filter (\<lambda>(n, obj). int n \<noteq> fd) (fdtab s)"
  by (simp add: fd_release_def)

lemma trace_sys_close [simp]: "trace (sys_close fd s) = trace s @ [Close fd]"
  by (simp add: sys_close_def)

lemma fdtab_sys_close [simp]:
  "fdtab (sys_close fd s) = filter (\<lambda>(n, obj). int n \<noteq> fd) (fdtab s)"
  by (simp add: sys_close_def)

lemma fd_alloc_eq:
  "fd_alloc obj s =
     (lowest_free (fdtab s), s\<lparr>fdtab := fdtab s @ [(lowest_free (fdtab s), obj)]\<rparr>)"
  by (simp add: fd_alloc_def Let_def)

text \<open>
  The descriptor handed out is not open: among the numbers 0 to \<open>length tab\<close> at least one
  is not in a table of \<open>length tab\<close> entries.
\<close>

lemma lowest_free_fresh: "lowest_free tab \<notin> fst ` set tab"
proof -
  let ?c = "filter (\<lambda>n. n \<notin> set (map fst tab)) [0..<Suc (length tab)]"
  have "\<not> {0..<Suc (length tab)} \<subseteq> set (map fst tab)"
  proof
    assume "{0..<Suc (length tab)} \<subseteq> set (map fst tab)"
    then have "card {0..<Suc (length tab)} \<le> card (set (map fst tab))"
      by (intro card_mono) auto
    also have "\<dots> \<le> length (map fst tab)"
      by (rule card_length)
    finally show False by simp
  qed
  then obtain x where "x \<in> {0..<Suc (length tab)}" "x \<notin> set (map fst tab)"
    by blast
  then have "x \<in> set ?c"
    by (simp del: upt_Suc)
  then have "?c \<noteq> []"
    by (metis empty_iff empty_set)
  then have "hd ?c \<in> set ?c"
    by (rule hd_in_set)
  then have "hd ?c \<notin> set (map fst tab)"
    unfolding set_filter by blast
  then show ?thesis
    unfolding lowest_free_def by (simp del: upt_Suc)
qed

lemma release_fresh [simp]: "filter (\<lambda>(n, obj). n \<noteq> lowest_free tab) tab = tab"
proof -
  have "\<forall>e \<in> set tab. (case e of (n, obj) \<Rightarrow> n \<noteq> lowest_free tab)"
    using lowest_free_fresh [of tab] by (auto simp: image_iff)
  then show ?thesis
    by (simp add: filter_id_conv)
qed

section \<open>Running the model\<close>

text \<open>
  The definitions of the loops and of \<^verbatim>\<open>main\<close> bind the results of the calls they make. The
  equations of this section say the same without bound variables, each call written out
  where its result is used, so that the simplifier evaluates a run on a concrete world
  from the inside out.
\<close>

lemma save_loop_unroll:
  "save_loop fb2 i io 0 st =
     save_plane fb2 i io 3 (save_plane fb2 i io 2 (save_plane fb2 i io 1 (save_plane fb2 i io 0 st)))"
  by (simp add: save_loop.simps eval_nat_numeral)

lemma length_filename:
  "length (filename png_fn i) = length png_fn + length (decimal i) + 5"
  by (simp add: filename_def)

lemma length_decimal_digit: "n < 10 \<Longrightarrow> length (decimal n) = 1"
  by (simp add: decimal.simps)

lemma save_png_run:
  "save_png fb2 drm_fd png_fn i io s =
     (if 64 < length (filename png_fn i) + 1 then (None, s)
      else if fopen_errno io \<noteq> None
      then (Some (- the (fopen_errno io)),
            emit (Msg NoOutputFile) (emit (Fopen png_fn i None) s))
      else
        (Some (fst (save_loop fb2 i io 0
           (ret_init io,
            emit (Fopen png_fn i (Some (lowest_free (fdtab s))))
              (s\<lparr>fdtab := fdtab s @ [(lowest_free (fdtab s), OutFile i)]\<rparr>)))),
         emit (Fclose (lowest_free (fdtab s)))
           (fd_release (int (lowest_free (fdtab s)))
              (snd (save_loop fb2 i io 0
                 (ret_init io,
                  emit (Fopen png_fn i (Some (lowest_free (fdtab s))))
                    (s\<lparr>fdtab := fdtab s @ [(lowest_free (fdtab s), OutFile i)]\<rparr>)))))))"
  by (simp add: save_png_def fd_alloc_eq Let_def split_def split: option.splits)

lemma out_return_simps [simp]:
  "fst (out_return retval s) = Exit retval" "snd (out_return retval s) = s"
  by (simp_all add: out_return_def)

lemma out_close_fd_simps [simp]:
  "fst (out_close_fd fd retval s) = Exit retval"
  "trace (snd (out_close_fd fd retval s)) = trace s @ [Close (int fd)]"
  by (simp_all add: out_close_fd_def)

lemma out_free_resources_simps [simp]:
  "fst (out_free_resources fd retval s) = Exit retval"
  "trace (snd (out_free_resources fd retval s)) = trace s @ [FreePlaneResources, Close (int fd)]"
  by (simp_all add: out_free_resources_def)

lemma out_free_fb_simps [simp]:
  "fst (out_free_fb w fd retval s) = (if fb_init w = 0 then Exit retval else InvalidFree)"
  "trace (snd (out_free_fb w fd retval s)) =
     trace s @ (if fb_init w = 0 then [FreeFB 0, FreePlaneResources, Close (int fd)]
                else [FreeFB (fb_init w)])"
  by (simp_all add: out_free_fb_def)

lemma out_close_prime_fd_simps [simp]:
  "fst (out_close_prime_fd w fd retval s) = (if fb_init w = 0 then Exit retval else InvalidFree)"
  "trace (snd (out_close_prime_fd w fd retval s)) =
     trace s @ Close (prime_fd_init w)
       # (if fb_init w = 0 then [FreeFB 0, FreePlaneResources, Close (int fd)]
          else [FreeFB (fb_init w)])"
  by (simp_all add: out_close_prime_fd_def)

lemma plane_loop_run:
  "plane_loop drm_fd png_fn (io # ios) i s =
     (if get_plane io = None then (NullDeref, emit (GetPlane i (plane_id io) False) s)
      else if fb_id (the (get_plane io)) = 0 \<or> crtc_id (the (get_plane io)) = 0
      then plane_loop drm_fd png_fn ios (Suc i)
             (emit (FreePlane i) (emit (GetPlane i (plane_id io) True) s))
      else if get_fb2 io = None
      then (GotoFreeResources,
            emit (Msg (NoFramebuffer (fb_id (the (get_plane io)))))
              (emit (GetFB2 i (fb_id (the (get_plane io))) False)
                 (emit (FreePlane i) (emit (GetPlane i (plane_id io) True) s))))
      else if fst (save_png (the (get_fb2 io)) drm_fd png_fn i io
                     (emit (GetFB2 i (fb_id (the (get_plane io))) True)
                        (emit (FreePlane i) (emit (GetPlane i (plane_id io) True) s)))) = None
      then (Overrun,
            snd (save_png (the (get_fb2 io)) drm_fd png_fn i io
                   (emit (GetFB2 i (fb_id (the (get_plane io))) True)
                      (emit (FreePlane i) (emit (GetPlane i (plane_id io) True) s)))))
      else if the (fst (save_png (the (get_fb2 io)) drm_fd png_fn i io
                          (emit (GetFB2 i (fb_id (the (get_plane io))) True)
                             (emit (FreePlane i) (emit (GetPlane i (plane_id io) True) s))))) < 0
      then (GotoClosePrimeFd,
            emit (Msg (NoScreenshot
                    (the (fst (save_png (the (get_fb2 io)) drm_fd png_fn i io
                       (emit (GetFB2 i (fb_id (the (get_plane io))) True)
                          (emit (FreePlane i) (emit (GetPlane i (plane_id io) True) s))))))))
              (snd (save_png (the (get_fb2 io)) drm_fd png_fn i io
                 (emit (GetFB2 i (fb_id (the (get_plane io))) True)
                    (emit (FreePlane i) (emit (GetPlane i (plane_id io) True) s))))))
      else plane_loop drm_fd png_fn ios (Suc i)
             (snd (save_png (the (get_fb2 io)) drm_fd png_fn i io
                (emit (GetFB2 i (fb_id (the (get_plane io))) True)
                   (emit (FreePlane i) (emit (GetPlane i (plane_id io) True) s))))))"
  by (simp add: plane_loop.simps Let_def split_def split: option.splits prod.splits)

lemma probe_run:
  "probe (c # cs) cardno s =
     (if \<not> openable c then (None, emit (Msg CouldNotOpen) (emit (Open cardno None) s))
      else if 0 \<le> cap_ret c \<and> has_dumb c \<noteq> 0
      then (Some (cardno, lowest_free (fdtab s)),
            emit (GetCap (lowest_free (fdtab s)))
              (emit (Open cardno (Some (lowest_free (fdtab s))))
                 (s\<lparr>fdtab := fdtab s @ [(lowest_free (fdtab s), CardNode cardno)]\<rparr>)))
      else probe cs (Suc cardno)
             (sys_close (int (lowest_free (fdtab s)))
                (emit (GetCap (lowest_free (fdtab s)))
                   (emit (Open cardno (Some (lowest_free (fdtab s))))
                      (s\<lparr>fdtab := fdtab s @ [(lowest_free (fdtab s), CardNode cardno)]\<rparr>)))))"
  by (simp add: probe.simps fd_alloc_eq Let_def)

lemma locate_run:
  "locate w s =
     (if fst (probe (cards w) 0 s) = None then (None, snd (probe (cards w) 0 s))
      else if \<not> reopen_ok w
      then (None, emit (Msg CouldNotOpen)
                    (emit (Open (fst (the (fst (probe (cards w) 0 s)))) None)
                       (snd (probe (cards w) 0 s))))
      else (Some (fst (the (fst (probe (cards w) 0 s))),
                  lowest_free (fdtab (snd (probe (cards w) 0 s)))),
            emit (Open (fst (the (fst (probe (cards w) 0 s))))
                    (Some (lowest_free (fdtab (snd (probe (cards w) 0 s))))))
              ((snd (probe (cards w) 0 s))
                 \<lparr>fdtab := fdtab (snd (probe (cards w) 0 s))
                    @ [(lowest_free (fdtab (snd (probe (cards w) 0 s))),
                        CardNode (fst (the (fst (probe (cards w) 0 s)))))]\<rparr>)))"
  by (simp add: locate_def fd_alloc_eq Let_def split_def split: option.splits prod.splits)

lemma main_run:
  "main w argv =
     (if length argv < 2 then out_return 1 (emit (Msg Usage) proc0)
      else if fst (locate w proc0) = None then out_return 1 (snd (locate w proc0))
      else if atomic_ret w \<noteq> 0
      then out_close_fd (snd (the (fst (locate w proc0)))) 1
             (emit (Msg NoAtomicCap)
                (emit (SetClientCap (snd (the (fst (locate w proc0)))) DRM_CLIENT_CAP_ATOMIC
                         (atomic_ret w))
                   (snd (locate w proc0))))
      else if universal_ret w \<noteq> 0
      then out_close_fd (snd (the (fst (locate w proc0)))) 1
             (emit (Msg NoUniversalCap)
                (emit (SetClientCap (snd (the (fst (locate w proc0))))
                         DRM_CLIENT_CAP_UNIVERSAL_PLANES (universal_ret w))
                   (emit (SetClientCap (snd (the (fst (locate w proc0)))) DRM_CLIENT_CAP_ATOMIC
                            (atomic_ret w))
                      (snd (locate w proc0)))))
      else if plane_res w = None
      then out_close_fd (snd (the (fst (locate w proc0)))) 1
             (emit (Msg NoPlaneResources)
                (emit (GetPlaneResources (snd (the (fst (locate w proc0)))) False)
                   (emit (SetClientCap (snd (the (fst (locate w proc0))))
                            DRM_CLIENT_CAP_UNIVERSAL_PLANES (universal_ret w))
                      (emit (SetClientCap (snd (the (fst (locate w proc0))))
                               DRM_CLIENT_CAP_ATOMIC (atomic_ret w))
                         (snd (locate w proc0))))))
      else unwind w (snd (the (fst (locate w proc0))))
             (plane_loop (snd (the (fst (locate w proc0)))) (argv ! 1) (the (plane_res w)) 0
                (emit (GetPlaneResources (snd (the (fst (locate w proc0)))) True)
                   (emit (SetClientCap (snd (the (fst (locate w proc0))))
                            DRM_CLIENT_CAP_UNIVERSAL_PLANES (universal_ret w))
                      (emit (SetClientCap (snd (the (fst (locate w proc0))))
                               DRM_CLIENT_CAP_ATOMIC (atomic_ret w))
                         (snd (locate w proc0)))))))"
  by (simp add: main_def Let_def split_def split: option.splits prod.splits)

text \<open>
  These equations are also the ones to evaluate the functions with: they replace the
  defining equations as code equations.
\<close>

declare save_png_run [code] locate_run [code] main_run [code]

declare probe.simps(1) [code] probe_run [code]

declare plane_loop.simps(1) [code] plane_loop_run [code]

lemmas run_state = emit_def fd_alloc_eq lowest_free_def sys_close_def fd_release_def proc0_def

lemmas run_save = save_png_run save_loop_unroll save_plane_def plane_size_def Let_def
  length_filename length_decimal_digit

lemmas run_main = main_run locate_run probe_run probe.simps(1) plane_loop_run
  plane_loop.simps(1) out_return_def out_close_fd_def out_free_resources_def out_free_fb_def
  out_close_prime_fd_def

lemmas run_w_ok = w_ok_def argv2_def io_ok_def io_inactive_def fb2_one_def card_plain_def
  card_dumb_def

section \<open>Properties of \<^verbatim>\<open>save_png\<close>\<close>

subsection \<open>The mapped length\<close>

text \<open>
  Claim C6, as stated, at pitch 65536 and height 65536 on memory plane 0: both are
  positive, the product is \<open>2 ^ 32\<close>, and the length mapped is 0.
\<close>

theorem plane_size_counterexample:
  "0 < unat (pitches fb2_64k 0) \<and> 0 < unat (drmModeFB2.height fb2_64k)
   \<and> unat (plane_size fb2_64k 0) \<noteq> unat (pitches fb2_64k 0) * unat (drmModeFB2.height fb2_64k)"
  by (simp add: plane_size_def fb2_64k_def)

lemma save_plane_mmap_call:
  assumes "handles fb2 p \<noteq> 0" "0 \<le> export_ret io p"
  shows "filter mmap_call (trace (snd (save_plane fb2 i io p (ret, s))))
     = filter mmap_call (trace s)
         @ [Mmap i p (plane_size fb2 p) (lowest_free (fdtab s)) (mmap_errno io p)]"
  using assms
  by (simp add: save_plane_def fd_alloc_eq Let_def split: option.splits)

lemma save_plane_no_mmap_call:
  assumes "handles fb2 p = 0 \<or> export_ret io p < 0"
  shows "filter mmap_call (trace (snd (save_plane fb2 i io p (ret, s))))
     = filter mmap_call (trace s)"
  using assms
  by (auto simp: save_plane_def)

text \<open>
  Claim C6, amended. The byte length mapped for the memory plane at index \<open>p\<close> is
  \<open>pitch[p] * height\<close> taken modulo \<open>2 ^ 32\<close>, as it is when \<open>p\<close> is 0 and halved (integer
  division) when \<open>p\<close> is 1, 2 or 3; it is \<open>pitch[p] * height\<close>, or half of it, whenever that
  product is below \<open>2 ^ 32\<close>. This is the length of the one \<^verbatim>\<open>mmap\<close> call made for a memory
  plane that is present and exported; no other memory plane is mapped.
\<close>

theorem plane_size_modular:
  "unat (plane_size fb2 p) =
     unat (pitches fb2 p) * unat (drmModeFB2.height fb2) mod 2 ^ 32 div (if p = 0 then 1 else 2)
   \<and> (handles fb2 p \<noteq> 0 \<and> 0 \<le> export_ret io p \<longrightarrow>
        filter mmap_call (trace (snd (save_plane fb2 i io p (ret, s))))
          = filter mmap_call (trace s)
              @ [Mmap i p (plane_size fb2 p) (lowest_free (fdtab s)) (mmap_errno io p)])
   \<and> (handles fb2 p = 0 \<or> export_ret io p < 0 \<longrightarrow>
        filter mmap_call (trace (snd (save_plane fb2 i io p (ret, s))))
          = filter mmap_call (trace s))"
  using save_plane_mmap_call [of fb2 p io i ret s] save_plane_no_mmap_call [of fb2 p io i ret s]
  by (simp add: plane_size_def unat_word_ariths unat_div)

theorem plane_size_modular_witness:
  "handles fb2_one 0 \<noteq> 0 \<and> 0 \<le> export_ret io_ok 0
   \<and> unat (plane_size fb2_one 0) = 16
   \<and> filter mmap_call (trace (snd (save_plane fb2_one 0 io_ok 0 (0, proc0))))
        = [Mmap 0 0 16 3 None]"
proof -
  have h: "handles fb2_one 0 \<noteq> 0 \<and> 0 \<le> export_ret io_ok 0"
    by (simp add: fb2_one_def io_ok_def)
  have v: "pitches fb2_one 0 = 8" "drmModeFB2.height fb2_one = 2" "mmap_errno io_ok 0 = None"
    "filter mmap_call (trace proc0) = []" "lowest_free (fdtab proc0) = 3"
    by (simp_all add: fb2_one_def io_ok_def proc0_def lowest_free_def)
  from plane_size_modular [of fb2_one 0 io_ok 0 0 proc0] h v show ?thesis
    by (simp add: plane_size_def)
qed

subsection \<open>Absent memory planes\<close>

lemma save_plane_absent: "handles fb2 p = 0 \<Longrightarrow> save_plane fb2 i io p st = st"
  by (cases st) (simp add: save_plane_def)

lemma save_plane_other:
  "q \<noteq> p \<Longrightarrow>
   filter (\<lambda>e. memory_plane_of e = Some (i, p)) (trace (snd (save_plane fb2 i io q st)))
     = filter (\<lambda>e. memory_plane_of e = Some (i, p)) (trace (snd st))"
  by (cases st) (simp add: save_plane_def fd_alloc_eq Let_def split: option.splits)

lemma save_loop_absent:
  "handles fb2 p = 0 \<Longrightarrow>
   filter (\<lambda>e. memory_plane_of e = Some (i, p)) (trace (snd (save_loop fb2 i io q st)))
     = filter (\<lambda>e. memory_plane_of e = Some (i, p)) (trace (snd st))"
proof (induction fb2 i io q st rule: save_loop.induct)
  case (1 fb2 i io q st)
  show ?case
  proof (cases "q < 4")
    case True
    have "filter (\<lambda>e. memory_plane_of e = Some (i, p)) (trace (snd (save_plane fb2 i io q st)))
        = filter (\<lambda>e. memory_plane_of e = Some (i, p)) (trace (snd st))"
      using "1.prems" by (cases "q = p") (simp_all add: save_plane_absent save_plane_other)
    with True 1 show ?thesis
      by (subst save_loop.simps) simp
  next
    case False
    then show ?thesis
      by (subst save_loop.simps) simp
  qed
qed

text \<open>
  Claim C8. For every buffer descriptor and every memory-plane index \<open>p\<close> with
  \<open>handles[p] = 0\<close>, \<^verbatim>\<open>save_png\<close> makes no call for that memory plane: the run has no export,
  no mapping, no write and no unmapping for index \<open>p\<close> beyond those already in the trace.
  (The file of the display plane is opened all the same; nothing of plane \<open>p\<close> is written
  to it.)
\<close>

theorem absent_plane_untouched:
  assumes "handles fb2 p = 0"
  shows "filter (\<lambda>e. memory_plane_of e = Some (i, p))
           (trace (snd (save_png fb2 drm_fd png_fn i io s)))
       = filter (\<lambda>e. memory_plane_of e = Some (i, p)) (trace s)"
  using assms
  by (simp add: save_png_def fd_alloc_eq Let_def split_def save_loop_absent
      split: option.splits)

theorem absent_plane_untouched_witness:
  "handles fb2_one 1 = 0
   \<and> filter (\<lambda>e. memory_plane_of e = Some (0, 1))
        (trace (snd (save_png fb2_one 4 ''out'' 0 io_ok proc0))) = []"
proof -
  have absent: "handles fb2_one 1 = 0"
    by (simp add: fb2_one_def)
  from absent absent_plane_untouched [OF absent, of 0 4 "''out''" io_ok proc0]
  show ?thesis
    by (simp add: proc0_def)
qed

subsection \<open>What \<^verbatim>\<open>fwrite\<close> returns\<close>

lemma save_plane_fwrite:
  assumes "fst st = fst st'" "fdtab (snd st) = fdtab (snd st')"
    "map forget_written (trace (snd st)) = map forget_written (trace (snd st'))"
  shows "fst (save_plane fb2 i (io\<lparr>fwrite_ret := f\<rparr>) p st) = fst (save_plane fb2 i io p st')
     \<and> fdtab (snd (save_plane fb2 i (io\<lparr>fwrite_ret := f\<rparr>) p st))
         = fdtab (snd (save_plane fb2 i io p st'))
     \<and> map forget_written (trace (snd (save_plane fb2 i (io\<lparr>fwrite_ret := f\<rparr>) p st)))
         = map forget_written (trace (snd (save_plane fb2 i io p st')))"
  using assms
  by (cases st; cases st')
    (simp add: save_plane_def fd_alloc_eq Let_def split: option.splits)

lemma save_loop_fwrite:
  assumes "fst st = fst st'" "fdtab (snd st) = fdtab (snd st')"
    "map forget_written (trace (snd st)) = map forget_written (trace (snd st'))"
  shows "fst (save_loop fb2 i (io\<lparr>fwrite_ret := f\<rparr>) p st) = fst (save_loop fb2 i io p st')
     \<and> fdtab (snd (save_loop fb2 i (io\<lparr>fwrite_ret := f\<rparr>) p st))
         = fdtab (snd (save_loop fb2 i io p st'))
     \<and> map forget_written (trace (snd (save_loop fb2 i (io\<lparr>fwrite_ret := f\<rparr>) p st)))
         = map forget_written (trace (snd (save_loop fb2 i io p st')))"
  using assms
proof (induction fb2 i io p st' arbitrary: st rule: save_loop.induct)
  case (1 fb2 i io p st')
  show ?case
  proof (cases "p < 4")
    case True
    let ?io = "io\<lparr>fwrite_ret := f\<rparr>"
    note step = save_plane_fwrite [OF "1.prems",
        where ?fb2.0 = fb2 and i = i and io = io and f = f and p = p]
    have "fst (save_loop fb2 i ?io (Suc p) (save_plane fb2 i ?io p st))
        = fst (save_loop fb2 i io (Suc p) (save_plane fb2 i io p st'))
     \<and> fdtab (snd (save_loop fb2 i ?io (Suc p) (save_plane fb2 i ?io p st)))
        = fdtab (snd (save_loop fb2 i io (Suc p) (save_plane fb2 i io p st')))
     \<and> map forget_written (trace (snd (save_loop fb2 i ?io (Suc p) (save_plane fb2 i ?io p st))))
        = map forget_written (trace (snd (save_loop fb2 i io (Suc p) (save_plane fb2 i io p st'))))"
      using step True by (intro "1.IH") simp_all
    with True show ?thesis
      by (simp add: save_loop.simps [of _ _ _ p])
  next
    case False
    with "1.prems" show ?thesis
      by (simp add: save_loop.simps [of _ _ _ p])
  qed
qed

text \<open>
  Claim C5, as stated, at a write that fails: \<^verbatim>\<open>fwrite\<close> returns 0 for the 16 bytes of the
  only memory plane, and \<^verbatim>\<open>save_png\<close> returns 0, the value it returns in the same world
  when the write succeeds.
\<close>

theorem write_failure_counterexample:
  "trace (snd (save_png fb2_one 4 ''out'' 0 io_nowrite proc0)) =
     [Fopen ''out'' 0 (Some 3), PrimeHandleToFD 0 0 7 (Some 4), Mmap 0 0 16 4 None,
      Fwrite 0 0 16 0, Munmap 0 0 16, Close 4, Fclose 3]
   \<and> fst (save_png fb2_one 4 ''out'' 0 io_nowrite proc0) = Some 0
   \<and> fst (save_png fb2_one 4 ''out'' 0 io_ok proc0) = Some 0"
  by (simp add: run_save run_state io_nowrite_def io_ok_def fb2_one_def)

text \<open>
  Claim C5, amended. A failure to write a memory plane's bytes to the output file is not
  detected: what \<^verbatim>\<open>fwrite\<close> returns is ignored, so the value \<^verbatim>\<open>save_png\<close> returns for the
  plane, the descriptors it leaves open and every call it makes are the same whatever
  \<^verbatim>\<open>fwrite\<close> returns (the runs differ only in the return values recorded for \<^verbatim>\<open>fwrite\<close>).
\<close>

theorem write_failure_ignored:
  "fst (save_png fb2 drm_fd png_fn i (io\<lparr>fwrite_ret := f\<rparr>) s) = fst (save_png fb2 drm_fd png_fn i io s)
   \<and> fdtab (snd (save_png fb2 drm_fd png_fn i (io\<lparr>fwrite_ret := f\<rparr>) s))
       = fdtab (snd (save_png fb2 drm_fd png_fn i io s))
   \<and> map forget_written (trace (snd (save_png fb2 drm_fd png_fn i (io\<lparr>fwrite_ret := f\<rparr>) s)))
       = map forget_written (trace (snd (save_png fb2 drm_fd png_fn i io s)))"
proof -
  let ?s2 = "emit (Fopen png_fn i (Some (lowest_free (fdtab s))))
     (s\<lparr>fdtab := fdtab s @ [(lowest_free (fdtab s), OutFile i)]\<rparr>)"
  note l = save_loop_fwrite [where st = "(ret_init io, ?s2)" and st' = "(ret_init io, ?s2)"
      and ?fb2.0 = fb2 and i = i and io = io and f = f and p = 0]
  from l show ?thesis
    by (simp add: save_png_run)
qed

subsection \<open>Failed calls and the value returned\<close>

text \<open>
  \<^verbatim>\<open>ret\<close> changes only where \<^verbatim>\<open>mmap\<close> fails, to the negated \<^verbatim>\<open>errno\<close>. So a failed call in
  the trace makes the value returned negative, and without one the value returned is the
  one \<^verbatim>\<open>ret\<close> started with.
\<close>

lemma mmap_errno_positive:
  assumes "errnos_positive io" "p < 4" "mmap_errno io p = Some e"
  shows "0 < e"
proof -
  from \<open>p < 4\<close> have "p \<in> set [0, 1, 2, 3]"
    by auto
  with assms(1) have "case mmap_errno io p of None \<Rightarrow> True | Some e \<Rightarrow> 0 < e"
    unfolding errnos_positive_def list_all_iff by blast
  with assms(3) show ?thesis
    by simp
qed

lemma save_plane_failed:
  assumes "errnos_positive io" "p < 4"
    and "filter failed (trace (snd st)) \<noteq> [] \<longrightarrow> fst st < 0"
  shows "filter failed (trace (snd (save_plane fb2 i io p st))) \<noteq> []
     \<longrightarrow> fst (save_plane fb2 i io p st) < 0"
proof (cases "mmap_errno io p")
  case None
  with assms(3) show ?thesis
    by (cases st) (simp add: save_plane_def fd_alloc_eq Let_def)
next
  case (Some e)
  with assms(1,2) have "0 < e"
    by (simp add: mmap_errno_positive)
  with Some assms(3) show ?thesis
    by (cases st) (simp add: save_plane_def fd_alloc_eq Let_def)
qed

lemma save_plane_clean:
  assumes "filter failed (trace (snd (save_plane fb2 i io p st))) = []"
  shows "fst (save_plane fb2 i io p st) = fst st \<and> filter failed (trace (snd st)) = []"
  using assms
  by (cases st)
    (simp add: save_plane_def fd_alloc_eq Let_def split: option.splits if_splits)

lemma save_loop_failed:
  assumes "errnos_positive io"
    and "filter failed (trace (snd st)) \<noteq> [] \<longrightarrow> fst st < 0"
  shows "filter failed (trace (snd (save_loop fb2 i io p st))) \<noteq> []
     \<longrightarrow> fst (save_loop fb2 i io p st) < 0"
  using assms
proof (induction fb2 i io p st rule: save_loop.induct)
  case (1 fb2 i io p st)
  show ?case
  proof (cases "p < 4")
    case True
    with 1 save_plane_failed [OF "1.prems"(1) True "1.prems"(2), of fb2 i] show ?thesis
      by (simp add: save_loop.simps [of _ _ _ p])
  next
    case False
    with "1.prems" show ?thesis
      by (simp add: save_loop.simps [of _ _ _ p])
  qed
qed

lemma save_loop_clean:
  assumes "filter failed (trace (snd (save_loop fb2 i io p st))) = []"
  shows "fst (save_loop fb2 i io p st) = fst st \<and> filter failed (trace (snd st)) = []"
  using assms
proof (induction fb2 i io p st rule: save_loop.induct)
  case (1 fb2 i io p st)
  show ?case
  proof (cases "p < 4")
    case True
    with 1 have "fst (save_loop fb2 i io p st) = fst (save_plane fb2 i io p st)
        \<and> filter failed (trace (snd (save_plane fb2 i io p st))) = []"
      by (simp add: save_loop.simps [of _ _ _ p])
    with save_plane_clean [of fb2 i io p st] show ?thesis
      by simp
  next
    case False
    with "1.prems" show ?thesis
      by (simp add: save_loop.simps [of _ _ _ p])
  qed
qed

lemma fopen_errno_positive:
  "errnos_positive io \<Longrightarrow> fopen_errno io = Some e \<Longrightarrow> 0 < e"
  by (simp add: errnos_positive_def)

lemma save_png_overrun:
  "(fst (save_png fb2 drm_fd png_fn i io s) = None) = (64 \<le> length (filename png_fn i))"
  "fst (save_png fb2 drm_fd png_fn i io s) = None \<Longrightarrow> snd (save_png fb2 drm_fd png_fn i io s) = s"
  by (auto simp: save_png_run)

lemma save_png_failed:
  assumes "errnos_positive io" "filter failed (trace s) = []"
    and "filter failed (trace (snd (save_png fb2 drm_fd png_fn i io s))) \<noteq> []"
  shows "\<exists>err. fst (save_png fb2 drm_fd png_fn i io s) = Some err \<and> err < 0"
proof (cases "64 \<le> length (filename png_fn i)")
  case True
  with assms(2,3) show ?thesis
    by (simp add: save_png_run)
next
  case fits: False
  show ?thesis
  proof (cases "fopen_errno io")
    case None
    let ?st = "(ret_init io,
       emit (Fopen png_fn i (Some (lowest_free (fdtab s))))
         (s\<lparr>fdtab := fdtab s @ [(lowest_free (fdtab s), OutFile i)]\<rparr>))"
    have "filter failed (trace (snd ?st)) \<noteq> [] \<longrightarrow> fst ?st < 0"
      using assms(2) by simp
    from save_loop_failed [OF assms(1) this, of fb2 i 0] assms(3) None fits show ?thesis
      by (simp add: save_png_run)
  next
    case (Some e)
    with assms(1) have "0 < e"
      by (simp add: fopen_errno_positive)
    with Some fits show ?thesis
      by (simp add: save_png_run)
  qed
qed

lemma save_png_clean:
  assumes "filter failed (trace (snd (save_png fb2 drm_fd png_fn i io s))) = []"
    and "length (filename png_fn i) < 64"
  shows "fst (save_png fb2 drm_fd png_fn i io s) = Some (ret_init io)
     \<and> filter failed (trace s) = []"
proof (cases "fopen_errno io")
  case None
  let ?st = "(ret_init io,
     emit (Fopen png_fn i (Some (lowest_free (fdtab s))))
       (s\<lparr>fdtab := fdtab s @ [(lowest_free (fdtab s), OutFile i)]\<rparr>))"
  from assms None have "filter failed (trace (snd (save_loop fb2 i io 0 ?st))) = []"
    by (simp add: save_png_run)
  from save_loop_clean [OF this] None assms(2) show ?thesis
    by (simp add: save_png_run)
next
  case (Some e)
  with assms show ?thesis
    by (simp add: save_png_run)
qed

subsection \<open>Events that \<^verbatim>\<open>save_png\<close> does not add\<close>

lemma save_plane_frame:
  assumes "\<And>i p h fd. \<not> P (PrimeHandleToFD i p h fd)" "\<And>i p sz fd e. \<not> P (Mmap i p sz fd e)"
    "\<And>i p sz n. \<not> P (Fwrite i p sz n)" "\<And>i p sz. \<not> P (Munmap i p sz)"
    "\<And>fd. \<not> P (Close fd)" "\<And>m. \<not> P (Msg m)"
  shows "filter P (trace (snd (save_plane fb2 i io p st))) = filter P (trace (snd st))"
  by (cases st) (simp add: save_plane_def fd_alloc_eq Let_def assms split: option.splits)

lemma save_png_frame:
  assumes "\<And>i p h fd. \<not> P (PrimeHandleToFD i p h fd)" "\<And>i p sz fd e. \<not> P (Mmap i p sz fd e)"
    "\<And>i p sz n. \<not> P (Fwrite i p sz n)" "\<And>i p sz. \<not> P (Munmap i p sz)"
    "\<And>fd. \<not> P (Close fd)" "\<And>m. \<not> P (Msg m)"
    "\<And>fn i fd. \<not> P (Fopen fn i fd)" "\<And>fd. \<not> P (Fclose fd)"
  shows "filter P (trace (snd (save_png fb2 drm_fd png_fn i io s))) = filter P (trace s)"
  by (simp add: save_png_run save_loop_unroll save_plane_frame [of P] assms)


section \<open>Properties of \<^verbatim>\<open>main\<close>\<close>

subsection \<open>Failed calls and the way the loops end\<close>

lemma plane_loop_failed:
  assumes "list_all errnos_positive ios" "filter failed (trace s) = []"
    and "filter failed (trace (snd (plane_loop drm_fd png_fn ios i s))) \<noteq> []"
  shows "fst (plane_loop drm_fd png_fn ios i s) = GotoClosePrimeFd
     \<or> fst (plane_loop drm_fd png_fn ios i s) = GotoFreeResources"
  using assms
proof (induction ios arbitrary: i s)
  case Nil
  then show ?case
    by (simp add: plane_loop.simps)
next
  case (Cons io ios)
  let ?s1 = "emit (FreePlane i) (emit (GetPlane i (plane_id io) True) s)"
  show ?case
  proof (cases "get_plane io")
    case None
    with Cons.prems show ?thesis
      by (simp add: plane_loop_run)
  next
    case plane: (Some pl)
    show ?thesis
    proof (cases "fb_id pl = 0 \<or> crtc_id pl = 0")
      case True
      with plane have eq: "plane_loop drm_fd png_fn (io # ios) i s
          = plane_loop drm_fd png_fn ios (Suc i) ?s1"
        by (simp add: plane_loop_run)
      have "filter failed (trace ?s1) = []"
        using Cons.prems(2) by simp
      with Cons.IH [where s = ?s1 and i = "Suc i"] Cons.prems eq show ?thesis
        by simp
    next
      case active: False
      show ?thesis
      proof (cases "get_fb2 io")
        case None
        with plane active show ?thesis
          by (simp add: plane_loop_run)
      next
        case (Some f)
        let ?s2 = "emit (GetFB2 i (fb_id pl) True) ?s1"
        let ?R = "save_png f drm_fd png_fn i io ?s2"
        have s2: "filter failed (trace ?s2) = []"
          using Cons.prems(2) by simp
        show ?thesis
        proof (cases "fst ?R")
          case overrun: None
          then have "snd ?R = ?s2"
            by (rule save_png_overrun(2))
          with overrun plane active Some s2 Cons.prems(3) show ?thesis
            by (simp add: plane_loop_run)
        next
          case ret: (Some err)
          show ?thesis
          proof (cases "err < 0")
            case True
            with ret plane active Some show ?thesis
              by (simp add: plane_loop_run)
          next
            case False
            with ret plane active Some have eq: "plane_loop drm_fd png_fn (io # ios) i s
                = plane_loop drm_fd png_fn ios (Suc i) (snd ?R)"
              by (simp add: plane_loop_run)
            from save_png_failed [of io ?s2 f drm_fd png_fn i] Cons.prems(1) s2 ret False
            have "filter failed (trace (snd ?R)) = []"
              by auto
            with Cons.IH [where s = "snd ?R" and i = "Suc i"] Cons.prems eq show ?thesis
              by simp
          qed
        qed
      qed
    qed
  qed
qed

lemma plane_loop_clean:
  assumes "list_all (\<lambda>io. 0 \<le> ret_init io) ios"
    and "\<forall>k < i + length ios. length (filename png_fn k) < 64"
    and "filter failed (trace (snd (plane_loop drm_fd png_fn ios i s))) = []"
    and "filter null_plane (trace (snd (plane_loop drm_fd png_fn ios i s))) = []"
  shows "fst (plane_loop drm_fd png_fn ios i s) = LoopDone"
  using assms
proof (induction ios arbitrary: i s)
  case Nil
  then show ?case
    by (simp add: plane_loop.simps)
next
  case (Cons io ios)
  let ?s1 = "emit (FreePlane i) (emit (GetPlane i (plane_id io) True) s)"
  from Cons.prems(2) have fits: "length (filename png_fn i) < 64"
    and later: "\<forall>k < Suc i + length ios. length (filename png_fn k) < 64"
    by simp_all
  show ?case
  proof (cases "get_plane io")
    case None
    with Cons.prems show ?thesis
      by (simp add: plane_loop_run)
  next
    case plane: (Some pl)
    show ?thesis
    proof (cases "fb_id pl = 0 \<or> crtc_id pl = 0")
      case True
      with plane have eq: "plane_loop drm_fd png_fn (io # ios) i s
          = plane_loop drm_fd png_fn ios (Suc i) ?s1"
        by (simp add: plane_loop_run)
      with Cons.IH [where s = ?s1 and i = "Suc i"] Cons.prems(1,3,4) later show ?thesis
        by simp
    next
      case active: False
      show ?thesis
      proof (cases "get_fb2 io")
        case None
        with plane active Cons.prems show ?thesis
          by (simp add: plane_loop_run)
      next
        case (Some f)
        let ?s2 = "emit (GetFB2 i (fb_id pl) True) ?s1"
        let ?R = "save_png f drm_fd png_fn i io ?s2"
        from fits have returns: "fst ?R \<noteq> None"
          by (simp add: save_png_overrun(1))
        show ?thesis
        proof (cases "the (fst ?R) < 0")
          case True
          with plane active Some returns Cons.prems(3)
          have "filter failed (trace (snd ?R)) = []"
            by (simp add: plane_loop_run del: not_None_eq)
          from save_png_clean [OF this fits] True Cons.prems(1) show ?thesis
            by simp
        next
          case False
          with plane active Some returns have eq: "plane_loop drm_fd png_fn (io # ios) i s
              = plane_loop drm_fd png_fn ios (Suc i) (snd ?R)"
            by (simp add: plane_loop_run del: not_None_eq)
          with Cons.IH [where s = "snd ?R" and i = "Suc i"] Cons.prems(1,3,4) later
          show ?thesis
            by simp
        qed
      qed
    qed
  qed
qed

lemma main_failed_failed: "main_failed e \<Longrightarrow> failed e"
  by (cases e rule: main_failed.cases) simp_all

lemma filter_main_failed:
  "filter failed es = [] \<Longrightarrow> filter main_failed es = []"
  by (auto simp: filter_empty_conv dest: main_failed_failed)

lemma save_png_main_failed:
  "filter main_failed (trace (snd (save_png fb2 drm_fd png_fn i io s)))
     = filter main_failed (trace s)"
  by (rule save_png_frame) simp_all

lemma plane_loop_main_failed:
  assumes "filter main_failed (trace s) = []"
    and "filter main_failed (trace (snd (plane_loop drm_fd png_fn ios i s))) \<noteq> []"
  shows "fst (plane_loop drm_fd png_fn ios i s) = GotoFreeResources"
  using assms
proof (induction ios arbitrary: i s)
  case Nil
  then show ?case
    by (simp add: plane_loop.simps)
next
  case (Cons io ios)
  let ?s1 = "emit (FreePlane i) (emit (GetPlane i (plane_id io) True) s)"
  show ?case
  proof (cases "get_plane io")
    case None
    with Cons.prems show ?thesis
      by (simp add: plane_loop_run)
  next
    case plane: (Some pl)
    show ?thesis
    proof (cases "fb_id pl = 0 \<or> crtc_id pl = 0")
      case True
      with plane have eq: "plane_loop drm_fd png_fn (io # ios) i s
          = plane_loop drm_fd png_fn ios (Suc i) ?s1"
        by (simp add: plane_loop_run)
      have "filter main_failed (trace ?s1) = []"
        using Cons.prems(1) by simp
      with Cons.IH [where s = ?s1 and i = "Suc i"] Cons.prems eq show ?thesis
        by simp
    next
      case active: False
      show ?thesis
      proof (cases "get_fb2 io")
        case None
        with plane active show ?thesis
          by (simp add: plane_loop_run)
      next
        case (Some f)
        let ?s2 = "emit (GetFB2 i (fb_id pl) True) ?s1"
        let ?R = "save_png f drm_fd png_fn i io ?s2"
        have saved: "filter main_failed (trace (snd ?R)) = []"
          using Cons.prems(1) by (simp add: save_png_main_failed)
        show ?thesis
        proof (cases "fst ?R")
          case None
          with plane active Some have "plane_loop drm_fd png_fn (io # ios) i s
              = (Overrun, snd ?R)"
            by (simp add: plane_loop_run)
          with saved Cons.prems(2) show ?thesis
            by simp
        next
          case ret: (Some err)
          show ?thesis
          proof (cases "err < 0")
            case True
            with ret plane active Some have "plane_loop drm_fd png_fn (io # ios) i s
                = (GotoClosePrimeFd, emit (Msg (NoScreenshot err)) (snd ?R))"
              by (simp add: plane_loop_run)
            with saved Cons.prems(2) show ?thesis
              by simp
          next
            case False
            with ret plane active Some have eq: "plane_loop drm_fd png_fn (io # ios) i s
                = plane_loop drm_fd png_fn ios (Suc i) (snd ?R)"
              by (simp add: plane_loop_run)
            with Cons.IH [where s = "snd ?R" and i = "Suc i"] Cons.prems saved show ?thesis
              by simp
          qed
        qed
      qed
    qed
  qed
qed

lemma probe_frame:
  assumes "\<And>k r. \<not> P (Open k r)" "\<And>fd. \<not> P (GetCap fd)" "\<And>fd. \<not> P (Close fd)"
    "\<And>m. \<not> P (Msg m)"
  shows "filter P (trace (snd (probe cs k s))) = filter P (trace s)"
proof (induction cs arbitrary: k s)
  case Nil
  show ?case
    by (simp add: probe.simps assms)
next
  case (Cons c cs)
  show ?case
    by (simp add: probe_run Cons.IH assms)
qed

lemma locate_frame:
  assumes "\<And>k r. \<not> P (Open k r)" "\<And>fd. \<not> P (GetCap fd)" "\<And>fd. \<not> P (Close fd)"
    "\<And>m. \<not> P (Msg m)"
  shows "filter P (trace (snd (locate w s))) = filter P (trace s)"
  by (simp add: locate_run probe_frame [of P] assms)

lemma probe_failed:
  assumes "filter failed (trace s) = []"
  shows "(filter failed (trace (snd (probe cs k s))) \<noteq> []) = (fst (probe cs k s) = None)"
  using assms
proof (induction cs arbitrary: k s)
  case Nil
  then show ?case
    by (simp add: probe.simps)
next
  case (Cons c cs)
  then show ?case
    by (simp add: probe_run)
qed

lemma locate_failed:
  assumes "filter failed (trace s) = []"
  shows "(filter failed (trace (snd (locate w s))) \<noteq> []) = (fst (locate w s) = None)"
  using probe_failed [OF assms, of "cards w" 0]
  by (simp add: locate_run)

subsection \<open>The exit paths\<close>

lemma plane_res_errnos:
  "world_errnos_positive w \<Longrightarrow> plane_res w = Some ios \<Longrightarrow> list_all errnos_positive ios"
  by (simp add: world_errnos_positive_def)

lemma plane_res_ret_init:
  "ret_init_nonneg w \<Longrightarrow> plane_res w = Some ios \<Longrightarrow> list_all (\<lambda>io. 0 \<le> ret_init io) ios"
  by (simp add: ret_init_nonneg_def)

lemma plane_res_names_fit:
  "names_fit w argv \<Longrightarrow> plane_res w = Some ios \<Longrightarrow>
   \<forall>k < 0 + length ios. length (filename (argv ! 1) k) < 64"
  by (simp add: names_fit_def list_all_iff)

lemma unwind_exit:
  "fst (unwind w drm_fd (j, s)) =
     (case j of
        LoopDone \<Rightarrow> if fb_init w = 0 then Exit 0 else InvalidFree
      | GotoClosePrimeFd \<Rightarrow> if fb_init w = 0 then Exit 1 else InvalidFree
      | GotoFreeResources \<Rightarrow> Exit 1
      | NullDeref \<Rightarrow> Segfault
      | Overrun \<Rightarrow> BufferOverrun)"
  by (cases j) simp_all

lemma unwind_frame:
  assumes "\<And>fd. \<not> P (Close fd)" "\<And>ptr. \<not> P (FreeFB ptr)" "\<not> P FreePlaneResources"
  shows "filter P (trace (snd (unwind w drm_fd (j, s)))) = filter P (trace s)"
  by (cases j) (simp_all add: assms)

lemma main_exit_failed:
  assumes wf: "world_errnos_positive w"
    and fl: "length argv < 2 \<or> filter failed (trace (snd (main w argv))) \<noteq> []"
  shows "fst (main w argv) = (if fst (main w argv) = InvalidFree then InvalidFree else Exit 1)"
proof (cases "length argv < 2")
  case True
  then show ?thesis
    by (simp add: main_run)
next
  case long: False
  with fl have tr: "filter failed (trace (snd (main w argv))) \<noteq> []"
    by simp
  let ?L = "locate w proc0"
  show ?thesis
  proof (cases "fst ?L = None \<or> atomic_ret w \<noteq> 0 \<or> universal_ret w \<noteq> 0 \<or> plane_res w = None")
    case True
    with long show ?thesis
      by (auto simp: main_run)
  next
    case False
    then obtain ios where ios: "plane_res w = Some ios"
      by auto
    let ?fd = "snd (the (fst ?L))"
    let ?s3 = "emit (GetPlaneResources ?fd True)
       (emit (SetClientCap ?fd DRM_CLIENT_CAP_UNIVERSAL_PLANES (universal_ret w))
          (emit (SetClientCap ?fd DRM_CLIENT_CAP_ATOMIC (atomic_ret w)) (snd ?L)))"
    let ?P = "plane_loop ?fd (argv ! 1) ios 0 ?s3"
    have m: "main w argv = unwind w ?fd ?P"
      using long False ios by (simp add: main_run del: not_None_eq)
    have "filter failed (trace proc0) = []"
      by (simp add: proc0_def)
    from locate_failed [OF this, of w] False have "filter failed (trace (snd ?L)) = []"
      by (simp del: not_None_eq)
    with False have s3: "filter failed (trace ?s3) = []"
      by simp
    obtain j s4 where P: "?P = (j, s4)"
      by (cases ?P)
    from tr m P have "filter failed (trace s4) \<noteq> []"
      by (simp add: unwind_frame)
    with plane_loop_failed [OF plane_res_errnos [OF wf ios] s3, of ?fd "argv ! 1" 0] P
    have "j = GotoClosePrimeFd \<or> j = GotoFreeResources"
      by simp
    with m P show ?thesis
      by (auto simp: unwind_exit)
  qed
qed

lemma unwind_invalid_free:
  "fst (unwind w drm_fd js) = InvalidFree \<Longrightarrow> fb_init w \<noteq> 0"
  by (cases js) (auto simp: unwind_exit split: jump.splits if_splits)

lemma main_invalid_free: "fst (main w argv) = InvalidFree \<Longrightarrow> fb_init w \<noteq> 0"
  by (auto simp: main_run split: if_splits dest: unwind_invalid_free)

lemma main_exit_failure:
  assumes "world_errnos_positive w" "fb_init w = 0"
    and "length argv < 2 \<or> filter failed (trace (snd (main w argv))) \<noteq> []"
  shows "fst (main w argv) = Exit 1"
  using main_exit_failed [OF assms(1,3)] main_invalid_free [of w argv] assms(2)
  by (simp split: if_splits)

lemma main_exit_main_failed:
  assumes fl: "length argv < 2 \<or> filter main_failed (trace (snd (main w argv))) \<noteq> []"
  shows "fst (main w argv) = Exit 1"
proof (cases "length argv < 2")
  case True
  then show ?thesis
    by (simp add: main_run)
next
  case long: False
  with fl have tr: "filter main_failed (trace (snd (main w argv))) \<noteq> []"
    by simp
  let ?L = "locate w proc0"
  show ?thesis
  proof (cases "fst ?L = None \<or> atomic_ret w \<noteq> 0 \<or> universal_ret w \<noteq> 0 \<or> plane_res w = None")
    case True
    with long show ?thesis
      by (auto simp: main_run)
  next
    case False
    then obtain ios where ios: "plane_res w = Some ios"
      by auto
    let ?fd = "snd (the (fst ?L))"
    let ?s3 = "emit (GetPlaneResources ?fd True)
       (emit (SetClientCap ?fd DRM_CLIENT_CAP_UNIVERSAL_PLANES (universal_ret w))
          (emit (SetClientCap ?fd DRM_CLIENT_CAP_ATOMIC (atomic_ret w)) (snd ?L)))"
    let ?P = "plane_loop ?fd (argv ! 1) ios 0 ?s3"
    have m: "main w argv = unwind w ?fd ?P"
      using long False ios by (simp add: main_run del: not_None_eq)
    have "filter failed (trace proc0) = []"
      by (simp add: proc0_def)
    from locate_failed [OF this, of w] False have "filter failed (trace (snd ?L)) = []"
      by (simp del: not_None_eq)
    then have "filter main_failed (trace (snd ?L)) = []"
      by (rule filter_main_failed)
    with False have s3: "filter main_failed (trace ?s3) = []"
      by simp
    obtain j s4 where P: "?P = (j, s4)"
      by (cases ?P)
    from tr m P have "filter main_failed (trace s4) \<noteq> []"
      by (simp add: unwind_frame)
    with plane_loop_main_failed [OF s3, of ?fd "argv ! 1" ios 0] P
    have "j = GotoFreeResources"
      by simp
    with m P show ?thesis
      by (simp add: unwind_exit)
  qed
qed

lemma main_exit_success:
  assumes long: "2 \<le> length argv" and ri: "ret_init_nonneg w" and fb0: "fb_init w = 0"
    and fit: "names_fit w argv"
    and nf: "filter failed (trace (snd (main w argv))) = []"
    and nn: "filter null_plane (trace (snd (main w argv))) = []"
  shows "fst (main w argv) = Exit 0"
proof -
  let ?L = "locate w proc0"
  have p0: "filter failed (trace proc0) = []"
    by (simp add: proc0_def)
  have located: "fst ?L \<noteq> None"
  proof
    assume "fst ?L = None"
    with long have "main w argv = out_return 1 (snd ?L)"
      by (simp add: main_run)
    with nf locate_failed [OF p0, of w] \<open>fst ?L = None\<close> show False
      by simp
  qed
  have caps: "atomic_ret w = 0 \<and> universal_ret w = 0 \<and> plane_res w \<noteq> None"
    using long located nf by (auto simp: main_run simp del: not_None_eq split: if_splits)
  then obtain ios where ios: "plane_res w = Some ios"
    by auto
  let ?fd = "snd (the (fst ?L))"
  let ?s3 = "emit (GetPlaneResources ?fd True)
     (emit (SetClientCap ?fd DRM_CLIENT_CAP_UNIVERSAL_PLANES (universal_ret w))
        (emit (SetClientCap ?fd DRM_CLIENT_CAP_ATOMIC (atomic_ret w)) (snd ?L)))"
  let ?P = "plane_loop ?fd (argv ! 1) ios 0 ?s3"
  have m: "main w argv = unwind w ?fd ?P"
    using long located caps ios by (simp add: main_run del: not_None_eq)
  obtain j s4 where P: "?P = (j, s4)"
    by (cases ?P)
  from nf nn m P have "filter failed (trace s4) = []" "filter null_plane (trace s4) = []"
    by (simp_all add: unwind_frame)
  with plane_loop_clean [OF plane_res_ret_init [OF ri ios] plane_res_names_fit [OF fit ios],
      of ?fd ?s3] P
  have "j = LoopDone"
    by simp
  with m P fb0 show ?thesis
    by (simp add: unwind_exit)
qed

lemma main_cap_failure:
  assumes "atomic_ret w \<noteq> 0 \<or> universal_ret w \<noteq> 0"
  shows "filter enumerates (trace (snd (main w argv))) = []"
proof -
  have "filter enumerates (trace (snd (locate w proc0))) = []"
    by (simp add: locate_frame [of enumerates] proc0_def)
  with assms show ?thesis
    by (auto simp: main_run proc0_def)
qed

subsection \<open>Runs in the concrete worlds\<close>

lemma trace_w_nocap:
  "trace (snd (main w_nocap argv2)) =
     [Open 0 (Some 3), GetCap 3, Close 3, Open 1 (Some 3), GetCap 3, Open 1 (Some 4),
      SetClientCap 4 DRM_CLIENT_CAP_ATOMIC (- 22), Msg NoAtomicCap, Close 4]"
  by (simp add: run_main run_save run_state run_w_ok w_nocap_def)

lemma trace_w_ok:
  "trace (snd (main w_ok argv2)) =
     [Open 0 (Some 3), GetCap 3, Close 3, Open 1 (Some 3), GetCap 3, Open 1 (Some 4),
      SetClientCap 4 DRM_CLIENT_CAP_ATOMIC 0, SetClientCap 4 DRM_CLIENT_CAP_UNIVERSAL_PLANES 0,
      GetPlaneResources 4 True, GetPlane 0 31 True, FreePlane 0, GetPlane 1 31 True,
      FreePlane 1, GetFB2 1 40 True, Fopen ''out'' 1 (Some 5), PrimeHandleToFD 1 0 7 (Some 6),
      Mmap 1 0 16 6 None, Fwrite 1 0 16 1, Munmap 1 0 16, Close 6, Fclose 5, Close (- 1),
      FreeFB 0, FreePlaneResources, Close 4]"
  by (simp add: run_main run_save run_state run_w_ok)

lemma trace_w_nomap:
  "trace (snd (main w_nomap argv2)) =
     [Open 0 (Some 3), GetCap 3, Close 3, Open 1 (Some 3), GetCap 3, Open 1 (Some 4),
      SetClientCap 4 DRM_CLIENT_CAP_ATOMIC 0, SetClientCap 4 DRM_CLIENT_CAP_UNIVERSAL_PLANES 0,
      GetPlaneResources 4 True, GetPlane 0 31 True, FreePlane 0, GetFB2 0 40 True,
      Fopen ''out'' 0 (Some 5), PrimeHandleToFD 0 0 7 (Some 6), Mmap 0 0 16 6 (Some 12),
      Msg (NoMmap 0), Close 6, Fclose 5, Msg (NoScreenshot (- 12)), Close (- 1), FreeFB 0,
      FreePlaneResources, Close 4]"
  by (simp add: run_main run_save run_state run_w_ok w_nomap_def io_nomap_def)

lemma wf_w_ok:
  "world_errnos_positive w_ok" "ret_init_nonneg w_ok" "fb_init w_ok = 0" "names_fit w_ok argv2"
  by (simp_all add: world_errnos_positive_def ret_init_nonneg_def errnos_positive_def
      names_fit_def length_filename length_decimal_digit run_w_ok)

lemma wf_w_nomap: "world_errnos_positive w_nomap" "fb_init w_nomap = 0"
  by (simp_all add: world_errnos_positive_def errnos_positive_def run_w_ok w_nomap_def
      io_nomap_def)

subsection \<open>The exit status\<close>

text \<open>
  Claim C1, as stated, in a world where \<^verbatim>\<open>mmap\<close> fails on the only memory plane of the
  first display plane: an argument is given and no call that \<^verbatim>\<open>main\<close> makes itself fails
  (every \<^verbatim>\<open>open\<close> succeeds, both capabilities are enabled, the buffer resolves), so none of
  the fatal errors the claim lists occurs (a mapping failure is non-fatal in the
  specification), and the process exits with status 1. The file name \<^verbatim>\<open>out-0.raw\<close> fits
  its buffer and \<^verbatim>\<open>fb\<close> is \<^verbatim>\<open>NULL\<close> in this world.
\<close>

theorem main_exit_status_counterexample:
  "2 \<le> length argv2 \<and> filter main_failed (trace (snd (main w_nomap argv2))) = []
   \<and> names_fit w_nomap argv2 \<and> fb_init w_nomap = 0
   \<and> fst (main w_nomap argv2) = Exit 1"
  by (simp add: run_main run_save run_state run_w_ok w_nomap_def io_nomap_def names_fit_def)

text \<open>
  Claim C1, amended. The process exits with status 1 on a usage error (missing argument),
  a device-open failure, a capability-negotiation failure (in which case no plane
  enumeration is attempted), a failure to get the plane resources and a buffer-resolution
  failure for an active plane. It also exits with status 1 when the output file of an
  active plane cannot be opened or one of its memory planes cannot be mapped, provided
  that the pointer \<^verbatim>\<open>fb\<close> of \<^verbatim>\<open>main\<close>, which is never assigned and is passed to
  \<^verbatim>\<open>drmModeFreeFB\<close> on the way out, is \<^verbatim>\<open>NULL\<close>. It exits with status 0 only when none of
  these happens, and it does exit with status 0 then, provided that \<^verbatim>\<open>fb\<close> is \<^verbatim>\<open>NULL\<close>, that
  every plane query returns a plane, that the name of every output file fits the 64 bytes
  of \<^verbatim>\<open>filename\<close>, and that the local \<^verbatim>\<open>ret\<close> of \<^verbatim>\<open>save_png\<close>, which is never initialised, does
  not start out negative. (Error numbers are positive.)
\<close>

theorem main_exit_status:
  "(length argv < 2 \<or> filter main_failed (trace (snd (main w argv))) \<noteq> []
       \<longrightarrow> fst (main w argv) = Exit 1)
   \<and> (atomic_ret w \<noteq> 0 \<or> universal_ret w \<noteq> 0
       \<longrightarrow> filter enumerates (trace (snd (main w argv))) = [])
   \<and> (world_errnos_positive w \<and> fb_init w = 0
       \<and> filter failed (trace (snd (main w argv))) \<noteq> []
       \<longrightarrow> fst (main w argv) = Exit 1)
   \<and> (world_errnos_positive w \<and> fst (main w argv) = Exit 0
       \<longrightarrow> 2 \<le> length argv \<and> filter failed (trace (snd (main w argv))) = [])
   \<and> (2 \<le> length argv \<and> fb_init w = 0 \<and> ret_init_nonneg w \<and> names_fit w argv
       \<and> filter failed (trace (snd (main w argv))) = []
       \<and> filter null_plane (trace (snd (main w argv))) = []
       \<longrightarrow> fst (main w argv) = Exit 0)"
proof -
  have only: "2 \<le> length argv \<and> filter failed (trace (snd (main w argv))) = []"
    if "world_errnos_positive w" "fst (main w argv) = Exit 0"
  proof (rule ccontr)
    assume "\<not> (2 \<le> length argv \<and> filter failed (trace (snd (main w argv))) = [])"
    then have "length argv < 2 \<or> filter failed (trace (snd (main w argv))) \<noteq> []"
      by auto
    from main_exit_failed [OF that(1) this] that(2) show False
      by simp
  qed
  from only main_exit_main_failed [of argv w] main_exit_failure [of w argv]
    main_cap_failure [of w argv] main_exit_success [of argv w]
  show ?thesis
    by blast
qed

theorem main_exit_status_witness:
  "atomic_ret w_nocap \<noteq> 0
   \<and> filter main_failed (trace (snd (main w_nocap argv2))) \<noteq> []
   \<and> fst (main w_nocap argv2) = Exit 1
   \<and> filter enumerates (trace (snd (main w_nocap argv2))) = []
   \<and> world_errnos_positive w_nomap \<and> fb_init w_nomap = 0
   \<and> filter failed (trace (snd (main w_nomap argv2))) \<noteq> []
   \<and> fst (main w_nomap argv2) = Exit 1
   \<and> 2 \<le> length argv2 \<and> fb_init w_ok = 0 \<and> ret_init_nonneg w_ok \<and> names_fit w_ok argv2
   \<and> filter failed (trace (snd (main w_ok argv2))) = []
   \<and> filter null_plane (trace (snd (main w_ok argv2))) = []
   \<and> fst (main w_ok argv2) = Exit 0"
proof -
  have a: "filter main_failed (trace (snd (main w_nocap argv2))) \<noteq> []"
    by (simp add: trace_w_nocap)
  have b: "atomic_ret w_nocap \<noteq> 0"
    by (simp add: w_nocap_def w_ok_def)
  have c: "filter failed (trace (snd (main w_ok argv2))) = []"
    "filter null_plane (trace (snd (main w_ok argv2))) = []"
    by (simp_all add: trace_w_ok)
  have d: "2 \<le> length argv2"
    by (simp add: argv2_def)
  have e: "filter failed (trace (snd (main w_nomap argv2))) \<noteq> []"
    by (simp add: trace_w_nomap)
  from main_exit_status [of argv2 w_nocap] main_exit_status [of argv2 w_ok]
    main_exit_status [of argv2 w_nomap] a b c d e wf_w_ok wf_w_nomap
  show ?thesis
    by blast
qed

subsection \<open>A mapping that fails\<close>

lemma save_plane_mmap_failed:
  assumes "handles fb2 p \<noteq> 0" "0 \<le> export_ret io p" "mmap_errno io p = Some e"
  shows "save_plane fb2 i io p (ret, s) =
    (- e, s\<lparr>trace := trace s @
        [PrimeHandleToFD i p (handles fb2 p) (Some (lowest_free (fdtab s))),
         Mmap i p (plane_size fb2 p) (lowest_free (fdtab s)) (Some e),
         Msg (NoMmap p),
         Close (int (lowest_free (fdtab s)))]\<rparr>)"
  using assms
  by (simp add: save_plane_def fd_alloc_eq Let_def sys_close_def fd_release_def emit_def)

lemma save_plane_negative:
  assumes "errnos_positive io" "p < 4" "fst st < 0"
  shows "fst (save_plane fb2 i io p st) < 0"
proof (cases "mmap_errno io p")
  case None
  with assms(3) show ?thesis
    by (cases st) (simp add: save_plane_def fd_alloc_eq Let_def)
next
  case (Some e)
  with assms(1,2) have "0 < e"
    by (simp add: mmap_errno_positive)
  with Some assms(3) show ?thesis
    by (cases st) (simp add: save_plane_def fd_alloc_eq Let_def)
qed

lemma save_loop_negative:
  assumes "errnos_positive io" "fst st < 0"
  shows "fst (save_loop fb2 i io q st) < 0"
  using assms
proof (induction fb2 i io q st rule: save_loop.induct)
  case (1 fb2 i io q st)
  show ?case
  proof (cases "q < 4")
    case True
    with 1 save_plane_negative [OF "1.prems"(1) True "1.prems"(2), of fb2 i] show ?thesis
      by (simp add: save_loop.simps [of _ _ _ q])
  next
    case False
    with "1.prems" show ?thesis
      by (simp add: save_loop.simps [of _ _ _ q])
  qed
qed

lemma save_loop_mmap_negative:
  assumes "errnos_positive io" "p < 4" "handles fb2 p \<noteq> 0" "0 \<le> export_ret io p"
    "mmap_errno io p = Some e" "q \<le> p"
  shows "fst (save_loop fb2 i io q st) < 0"
  using assms
proof (induction fb2 i io q st rule: save_loop.induct)
  case (1 fb2 i io q st)
  from "1.prems" have q: "q < 4"
    by simp
  show ?case
  proof (cases "q = p")
    case True
    from "1.prems" have "0 < e"
      by (simp add: mmap_errno_positive)
    with "1.prems" True have "fst (save_plane fb2 i io q st) < 0"
      by (cases st) (simp add: save_plane_mmap_failed)
    from save_loop_negative [OF "1.prems"(1) this] q show ?thesis
      by (simp add: save_loop.simps [of _ _ _ q])
  next
    case False
    with "1.prems" have "Suc q \<le> p"
      by simp
    with 1 q show ?thesis
      by (simp add: save_loop.simps [of _ _ _ q])
  qed
qed

lemma save_png_mmap_negative:
  assumes "errnos_positive io" "p < 4" "handles fb2 p \<noteq> 0" "0 \<le> export_ret io p"
    "mmap_errno io p = Some e" "fopen_errno io = None" "length (filename png_fn i) < 64"
  shows "\<exists>err. fst (save_png fb2 drm_fd png_fn i io s) = Some err \<and> err < 0"
  using save_loop_mmap_negative [OF assms(1-5), of 0] assms(6,7)
  by (simp add: save_png_run)

lemma save_plane_keeps:
  assumes "\<not> mmap_fails fb2 io q"
  shows "fst (save_plane fb2 i io q st) = fst st"
  using assms
  by (cases st) (auto simp: mmap_fails_def save_plane_def fd_alloc_eq Let_def)

lemma save_loop_keeps:
  assumes "\<forall>q'. q \<le> q' \<and> q' < 4 \<longrightarrow> \<not> mmap_fails fb2 io q'"
  shows "fst (save_loop fb2 i io q st) = fst st"
  using assms
proof (induction fb2 i io q st rule: save_loop.induct)
  case (1 fb2 i io q st)
  show ?case
  proof (cases "q < 4")
    case True
    with "1.prems" have "\<not> mmap_fails fb2 io q"
      by simp
    then have "fst (save_plane fb2 i io q st) = fst st"
      by (rule save_plane_keeps)
    moreover from "1.prems" have "\<forall>q'. Suc q \<le> q' \<and> q' < 4 \<longrightarrow> \<not> mmap_fails fb2 io q'"
      by simp
    ultimately show ?thesis
      using True "1.IH" by (simp add: save_loop.simps [of _ _ _ q])
  next
    case False
    then show ?thesis
      by (simp add: save_loop.simps [of _ _ _ q])
  qed
qed

lemma save_loop_last:
  assumes "p < 4" "handles fb2 p \<noteq> 0" "0 \<le> export_ret io p" "mmap_errno io p = Some e"
    "\<forall>q'. p < q' \<and> q' < 4 \<longrightarrow> \<not> mmap_fails fb2 io q'" "q \<le> p"
  shows "fst (save_loop fb2 i io q st) = - e"
  using assms
proof (induction fb2 i io q st rule: save_loop.induct)
  case (1 fb2 i io q st)
  from "1.prems" have q: "q < 4"
    by simp
  show ?case
  proof (cases "q = p")
    case True
    from "1.prems" True have "fst (save_plane fb2 i io q st) = - e"
      by (cases st) (simp add: save_plane_mmap_failed)
    moreover from "1.prems" True
    have "\<forall>q'. Suc q \<le> q' \<and> q' < 4 \<longrightarrow> \<not> mmap_fails fb2 io q'"
      by simp
    ultimately show ?thesis
      using q by (simp add: save_loop.simps [of _ _ _ q] save_loop_keeps)
  next
    case False
    with "1.prems" have "Suc q \<le> p"
      by simp
    with 1 q show ?thesis
      by (simp add: save_loop.simps [of _ _ _ q])
  qed
qed

lemma save_png_last:
  assumes "p < 4" "handles fb2 p \<noteq> 0" "0 \<le> export_ret io p" "mmap_errno io p = Some e"
    "\<forall>q'. p < q' \<and> q' < 4 \<longrightarrow> \<not> mmap_fails fb2 io q'"
    "fopen_errno io = None" "length (filename png_fn i) < 64"
  shows "fst (save_png fb2 drm_fd png_fn i io s) = Some (- e)"
  using save_loop_last [OF assms(1-5), of 0] assms(6,7)
  by (simp add: save_png_run)

lemma mmap_failed_failed: "mmap_failed e \<Longrightarrow> failed e"
  by (cases e rule: mmap_failed.cases) simp_all

lemma filter_mmap_failed:
  "filter mmap_failed es \<noteq> [] \<Longrightarrow> filter failed es \<noteq> []"
  by (auto simp: filter_empty_conv dest: mmap_failed_failed)

text \<open>
  Claim C2, as stated, in a world with two active display planes where \<^verbatim>\<open>mmap\<close> fails on
  the memory plane of the first: the error is recorded and the exported descriptor 6 is
  closed, but \<^verbatim>\<open>save_png\<close> returns \<open>-12\<close>, \<^verbatim>\<open>main\<close> reports that the screenshot failed and
  exits with status 1, and the second display plane is never queried.
\<close>

theorem mmap_failure_counterexample:
  "main w_nomap argv2 =
     (Exit 1,
      \<lparr>trace =
         [Open 0 (Some 3), GetCap 3, Close 3, Open 1 (Some 3), GetCap 3, Open 1 (Some 4),
          SetClientCap 4 DRM_CLIENT_CAP_ATOMIC 0,
          SetClientCap 4 DRM_CLIENT_CAP_UNIVERSAL_PLANES 0,
          GetPlaneResources 4 True, GetPlane 0 31 True, FreePlane 0, GetFB2 0 40 True,
          Fopen ''out'' 0 (Some 5), PrimeHandleToFD 0 0 7 (Some 6), Mmap 0 0 16 6 (Some 12),
          Msg (NoMmap 0), Close 6, Fclose 5, Msg (NoScreenshot (- 12)), Close (- 1),
          FreeFB 0, FreePlaneResources, Close 4],
       fdtab = [(0, Stdio), (1, Stdio), (2, Stdio), (3, CardNode 1)]\<rparr>)
   \<and> filter (\<lambda>e. queried_plane e = Some 1) (trace (snd (main w_nomap argv2))) = []"
  by (simp add: run_main run_save run_state run_w_ok w_nomap_def io_nomap_def)

text \<open>
  Claim C2, amended. For every memory plane whose mapping fails, the error is recorded
  (\<^verbatim>\<open>ret\<close> becomes the negated \<^verbatim>\<open>errno\<close> and a message is printed), the exported file
  descriptor of that plane is still closed, and processing continues with the remaining
  memory planes of the same buffer. The failure is fatal to the run: \<^verbatim>\<open>save_png\<close> returns
  a negative value, namely the negated \<^verbatim>\<open>errno\<close> of the last mapping that failed, the plane
  loop stops there without processing the remaining display planes, and the process exits
  with status 1 when the pointer \<^verbatim>\<open>fb\<close>, which \<^verbatim>\<open>main\<close> never assigns, is \<^verbatim>\<open>NULL\<close> (with any
  other value the run reaches the undefined \<^verbatim>\<open>drmModeFreeFB(fb)\<close> and returns no status).
  The display plane is one that is active, whose buffer resolves, whose output file opens
  and whose file name fits the 64 bytes of \<^verbatim>\<open>filename\<close>.
\<close>

theorem mmap_failure_is_fatal:
  assumes "p < 4" "handles fb2 p \<noteq> 0" "0 \<le> export_ret io p" "mmap_errno io p = Some e"
    and "errnos_positive io"
    and "get_plane io = Some pl" "fb_id pl \<noteq> 0" "crtc_id pl \<noteq> 0" "get_fb2 io = Some fb2"
    and "fopen_errno io = None" "length (filename png_fn i) < 64"
  shows "save_loop fb2 i io p (ret, s) =
      save_loop fb2 i io (Suc p)
        (- e, s\<lparr>trace := trace s @
           [PrimeHandleToFD i p (handles fb2 p) (Some (lowest_free (fdtab s))),
            Mmap i p (plane_size fb2 p) (lowest_free (fdtab s)) (Some e),
            Msg (NoMmap p),
            Close (int (lowest_free (fdtab s)))]\<rparr>)
    \<and> (\<exists>err. fst (save_png fb2 drm_fd png_fn i io s) = Some err \<and> err < 0)
    \<and> ((\<forall>q. p < q \<and> q < 4 \<longrightarrow> \<not> mmap_fails fb2 io q)
          \<longrightarrow> fst (save_png fb2 drm_fd png_fn i io s) = Some (- e))
    \<and> plane_loop drm_fd png_fn (io # ios) i s = plane_loop drm_fd png_fn [io] i s
    \<and> fst (plane_loop drm_fd png_fn (io # ios) i s) = GotoClosePrimeFd
    \<and> fst (unwind w drm_fd (plane_loop drm_fd png_fn (io # ios) i s))
        = (if fb_init w = 0 then Exit 1 else InvalidFree)
    \<and> (world_errnos_positive w' \<and> fb_init w' = 0
        \<and> filter mmap_failed (trace (snd (main w' argv))) \<noteq> []
          \<longrightarrow> fst (main w' argv) = Exit 1)"
proof -
  have step: "save_loop fb2 i io p (ret, s) =
      save_loop fb2 i io (Suc p)
        (- e, s\<lparr>trace := trace s @
           [PrimeHandleToFD i p (handles fb2 p) (Some (lowest_free (fdtab s))),
            Mmap i p (plane_size fb2 p) (lowest_free (fdtab s)) (Some e),
            Msg (NoMmap p),
            Close (int (lowest_free (fdtab s)))]\<rparr>)"
    using assms(1-4) by (simp add: save_loop.simps [of _ _ _ p] save_plane_mmap_failed)
  have neg: "\<exists>err. fst (save_png fb2 drm_fd png_fn i io s') = Some err \<and> err < 0" for s'
    using assms by (intro save_png_mmap_negative [where p = p and e = e]) simp_all
  have last: "fst (save_png fb2 drm_fd png_fn i io s) = Some (- e)"
    if "\<forall>q. p < q \<and> q < 4 \<longrightarrow> \<not> mmap_fails fb2 io q"
    using assms(1-4) that assms(10,11) by (rule save_png_last)
  let ?R = "save_png fb2 drm_fd png_fn i io
     (emit (GetFB2 i (fb_id pl) True)
        (emit (FreePlane i) (emit (GetPlane i (plane_id io) True) s)))"
  from neg obtain err where err: "fst ?R = Some err" "err < 0"
    by blast
  have stop: "plane_loop drm_fd png_fn (io # ios') i s =
      (GotoClosePrimeFd, emit (Msg (NoScreenshot err)) (snd ?R))" for ios'
    using assms(6-9) err by (simp add: plane_loop_run)
  have fatal: "fst (main w' argv) = Exit 1"
    if "world_errnos_positive w'" "fb_init w' = 0"
      "filter mmap_failed (trace (snd (main w' argv))) \<noteq> []"
    using that by (intro main_exit_failure) (simp_all add: filter_mmap_failed)
  from step neg last stop [of ios] stop [of "[]"] fatal show ?thesis
    by simp
qed

theorem mmap_failure_is_fatal_witness:
  "errnos_positive io_nomap \<and> length (filename ''out'' 0) < 64
   \<and> handles fb2_one 0 \<noteq> 0 \<and> mmap_errno io_nomap 0 = Some 12
   \<and> fst (save_png fb2_one 4 ''out'' 0 io_nomap proc0) = Some (- 12)
   \<and> plane_loop 4 ''out'' [io_nomap, io_ok] 0 proc0 = plane_loop 4 ''out'' [io_nomap] 0 proc0
   \<and> fst (unwind w_nomap 4 (plane_loop 4 ''out'' [io_nomap, io_ok] 0 proc0)) = Exit 1
   \<and> fst (main w_nomap argv2) = Exit 1"
proof -
  have h: "(0::nat) < 4" "handles fb2_one 0 \<noteq> 0" "0 \<le> export_ret io_nomap 0"
    "mmap_errno io_nomap 0 = Some 12" "errnos_positive io_nomap"
    "get_plane io_nomap = Some \<lparr>fb_id = 40, crtc_id = 50\<rparr>"
    "fb_id \<lparr>fb_id = 40, crtc_id = 50\<rparr> \<noteq> 0" "crtc_id \<lparr>fb_id = 40, crtc_id = 50\<rparr> \<noteq> 0"
    "get_fb2 io_nomap = Some fb2_one" "fopen_errno io_nomap = None"
    "length (filename ''out'' 0) < 64"
    by (simp_all add: errnos_positive_def io_nomap_def io_ok_def fb2_one_def length_filename
        length_decimal_digit)
  have l: "\<forall>q. 0 < q \<and> q < 4 \<longrightarrow> \<not> mmap_fails fb2_one io_nomap q"
    by (simp add: mmap_fails_def fb2_one_def)
  have t: "filter mmap_failed (trace (snd (main w_nomap argv2))) \<noteq> []"
    by (simp add: trace_w_nomap)
  from mmap_failure_is_fatal
    [OF h, of 0 proc0 4 "[io_ok]" w_nomap w_nomap argv2] l t h wf_w_nomap
  show ?thesis
    by auto
qed

subsection \<open>The Device Locator\<close>

lemma lowest_free_proc0: "lowest_free (fdtab proc0) = 3"
  by (simp add: proc0_def lowest_free_def)

lemma probe_accepted:
  assumes "fdtab s = fdtab proc0" "probe cs j s = (Some (k, fd), s')"
  shows "fd = 3 \<and> j \<le> k \<and> fdtab s' = fdtab proc0 @ [(3, CardNode k)]
     \<and> trace s' = trace s @ concat (map (\<lambda>n. [Open n (Some 3), GetCap 3, Close 3]) [j..<k])
          @ [Open k (Some 3), GetCap 3]"
  using assms
proof (induction cs arbitrary: j s)
  case Nil
  then show ?case
    by (simp add: probe.simps)
next
  case (Cons c cs)
  show ?case
  proof (cases "openable c")
    case False
    with Cons.prems show ?thesis
      by (simp add: probe_run)
  next
    case True
    show ?thesis
    proof (cases "0 \<le> cap_ret c \<and> has_dumb c \<noteq> 0")
      case accepted: True
      with True Cons.prems show ?thesis
        by (auto simp: probe_run lowest_free_proc0)
    next
      case rejected: False
      let ?s = "sys_close 3 (emit (GetCap 3) (emit (Open j (Some 3))
         (s\<lparr>fdtab := fdtab s @ [(3, CardNode j)]\<rparr>)))"
      from True rejected Cons.prems have next_probe: "probe cs (Suc j) ?s = (Some (k, fd), s')"
        by (auto simp: probe_run lowest_free_proc0 split: if_splits)
      have tab: "fdtab ?s = fdtab proc0"
        using Cons.prems(1) by (simp add: proc0_def)
      from Cons.IH [OF tab next_probe]
      have ih: "fd = 3" "Suc j \<le> k" "fdtab s' = fdtab proc0 @ [(3, CardNode k)]"
        "trace s' = trace ?s
           @ concat (map (\<lambda>n. [Open n (Some 3), GetCap 3, Close 3]) [Suc j..<k])
           @ [Open k (Some 3), GetCap 3]"
        by simp_all
      from ih(2) have "[j..<k] = j # [Suc j..<k]"
        by (simp add: upt_conv_Cons)
      with ih show ?thesis
        by simp
    qed
  qed
qed

lemma probe_rejected:
  assumes "openable c" "\<not> (0 \<le> cap_ret c \<and> has_dumb c \<noteq> 0)"
  shows "probe (c # cs) j s =
     probe cs (Suc j)
       (s\<lparr>trace := trace s @
          [Open j (Some (lowest_free (fdtab s))), GetCap (lowest_free (fdtab s)),
           Close (int (lowest_free (fdtab s)))]\<rparr>)"
proof -
  from assms have rejected: "(0 \<le> cap_ret c \<and> has_dumb c \<noteq> 0) = False"
    by simp
  from assms(1) show ?thesis
    by (simp only: probe_run rejected if_True if_False)
      (simp add: sys_close_def fd_release_def emit_def fd_alloc_eq)
qed

text \<open>
  Claim C3 on the code. When the Device Locator succeeds on the node with index \<open>k\<close>, it
  leaves two descriptors open, not one, both on node \<open>k\<close>: descriptor 3, which the probe
  loop opened and left in \<^verbatim>\<open>drm_fd\<close> at \<^verbatim>\<open>break\<close>, and descriptor 4 from the second \<^verbatim>\<open>open\<close>
  (line 146), whose result overwrites \<^verbatim>\<open>drm_fd\<close> while descriptor 3 is never closed. The
  calls made are, for each node before \<open>k\<close> in turn, \<^verbatim>\<open>open\<close>, \<^verbatim>\<open>drmGetCap\<close> and \<^verbatim>\<open>close\<close> of that
  node, then \<^verbatim>\<open>open\<close> and \<^verbatim>\<open>drmGetCap\<close> of node \<open>k\<close> and the second \<^verbatim>\<open>open\<close> of node \<open>k\<close>, with
  no \<^verbatim>\<open>close\<close> between them. The other half of the claim holds: in any state of the probe
  loop, a node that opens and is rejected is closed, which leaves the table of open
  descriptors as it was, before the next index is tried.
\<close>

theorem locate_leaves_probe_descriptor_open:
  "(locate w proc0 = (Some (k, drm_fd), s) \<longrightarrow>
      open_cards s = [k, k]
      \<and> drm_fd = 4
      \<and> fdtab s = fdtab proc0 @ [(3, CardNode k), (4, CardNode k)]
      \<and> trace s = concat (map (\<lambda>n. [Open n (Some 3), GetCap 3, Close 3]) [0..<k])
           @ [Open k (Some 3), GetCap 3, Open k (Some 4)])
   \<and> (openable c \<and> \<not> (0 \<le> cap_ret c \<and> has_dumb c \<noteq> 0) \<longrightarrow>
        probe (c # cs) j s' =
          probe cs (Suc j)
            (s'\<lparr>trace := trace s' @
               [Open j (Some (lowest_free (fdtab s'))), GetCap (lowest_free (fdtab s')),
                Close (int (lowest_free (fdtab s')))]\<rparr>))"
proof (intro conjI impI)
  assume located: "locate w proc0 = (Some (k, drm_fd), s)"
  obtain r s1 where pr: "probe (cards w) 0 proc0 = (r, s1)"
    by (cases "probe (cards w) 0 proc0")
  with located obtain fd where r: "r = Some (k, fd)" and ok: "reopen_ok w"
    by (auto simp: locate_def fd_alloc_eq split: option.splits if_splits)
  from probe_accepted [OF refl pr [unfolded r]]
  have p: "fdtab s1 = fdtab proc0 @ [(3, CardNode k)]"
    "trace s1 = concat (map (\<lambda>n. [Open n (Some 3), GetCap 3, Close 3]) [0..<k])
        @ [Open k (Some 3), GetCap 3]"
    by (simp_all add: proc0_def)
  have four: "lowest_free (fdtab proc0 @ [(3, CardNode k)]) = 4"
    by (simp add: proc0_def lowest_free_def)
  from located pr r ok p four
  have s: "drm_fd = 4" "s = emit (Open k (Some 4)) (s1\<lparr>fdtab := fdtab s1 @ [(4, CardNode k)]\<rparr>)"
    by (simp_all add: locate_def fd_alloc_eq)
  from s p show "open_cards s = [k, k]"
    by (simp add: open_cards_def proc0_def List.map_filter_simps)
  from s show "drm_fd = 4"
    by simp
  from s p show "fdtab s = fdtab proc0 @ [(3, CardNode k), (4, CardNode k)]"
    by simp
  from s p show "trace s = concat (map (\<lambda>n. [Open n (Some 3), GetCap 3, Close 3]) [0..<k])
      @ [Open k (Some 3), GetCap 3, Open k (Some 4)]"
    by simp
next
  assume "openable c \<and> \<not> (0 \<le> cap_ret c \<and> has_dumb c \<noteq> 0)"
  then show "probe (c # cs) j s' =
      probe cs (Suc j)
        (s'\<lparr>trace := trace s' @
           [Open j (Some (lowest_free (fdtab s'))), GetCap (lowest_free (fdtab s')),
            Close (int (lowest_free (fdtab s')))]\<rparr>)"
    by (intro probe_rejected) simp_all
qed

text \<open>
  In the world \<open>w_ok\<close> (node 0 without dumb buffers, node 1 with): the locator returns node
  1 in descriptor 4 and leaves descriptors 3 and 4 open on it, and descriptor 3 is still
  open when \<^verbatim>\<open>main\<close> returns.
\<close>

theorem locate_leaves_probe_descriptor_open_witness:
  "fst (locate w_ok proc0) = Some (1, 4)
   \<and> open_cards (snd (locate w_ok proc0)) = [1, 1]
   \<and> fdtab (snd (locate w_ok proc0))
       = [(0, Stdio), (1, Stdio), (2, Stdio), (3, CardNode 1), (4, CardNode 1)]
   \<and> trace (snd (locate w_ok proc0)) =
       [Open 0 (Some 3), GetCap 3, Close 3, Open 1 (Some 3), GetCap 3, Open 1 (Some 4)]
   \<and> openable card_plain \<and> has_dumb card_plain = 0
   \<and> probe [card_plain, card_dumb] 0 proc0 =
       probe [card_dumb] 1 (proc0\<lparr>trace := [Open 0 (Some 3), GetCap 3, Close 3]\<rparr>)
   \<and> fst (main w_ok argv2) = Exit 0
   \<and> fdtab (snd (main w_ok argv2)) = [(0, Stdio), (1, Stdio), (2, Stdio), (3, CardNode 1)]"
proof -
  have f: "fst (locate w_ok proc0) = Some (1, 4)"
    by (simp add: locate_run probe_run run_state run_w_ok)
  then have l: "locate w_ok proc0 = (Some (1, 4), snd (locate w_ok proc0))"
    by (simp add: prod_eq_iff)
  have c: "openable card_plain \<and> \<not> (0 \<le> cap_ret card_plain \<and> has_dumb card_plain \<noteq> 0)"
    "has_dumb card_plain = 0"
    by (simp_all add: card_plain_def)
  have t: "trace proc0 = []"
    by (simp add: proc0_def)
  have m: "fst (main w_ok argv2) = Exit 0"
    "fdtab (snd (main w_ok argv2)) = [(0, Stdio), (1, Stdio), (2, Stdio), (3, CardNode 1)]"
    by (simp_all add: run_main run_save run_state run_w_ok)
  from locate_leaves_probe_descriptor_open
    [of w_ok 1 4 "snd (locate w_ok proc0)" card_plain "[card_dumb]" 0 proc0] l f c t
  have located: "open_cards (snd (locate w_ok proc0)) = [1, 1]"
    "fdtab (snd (locate w_ok proc0)) = fdtab proc0 @ [(3, CardNode 1), (4, CardNode 1)]"
    "trace (snd (locate w_ok proc0)) =
       [Open 0 (Some 3), GetCap 3, Close 3, Open 1 (Some 3), GetCap 3, Open 1 (Some 4)]"
    "probe [card_plain, card_dumb] 0 proc0 =
       probe [card_dumb] 1 (proc0\<lparr>trace := [Open 0 (Some 3), GetCap 3, Close 3]\<rparr>)"
    by (simp_all add: upt_rec lowest_free_proc0)
  have "fdtab proc0 = [(0, Stdio), (1, Stdio), (2, Stdio)]"
    by (simp add: proc0_def)
  with located f c m show ?thesis
    by (simp del: One_nat_def)
qed

subsection \<open>Planes that are not captured\<close>

text \<open>
  Claim C4 on the code, in a world with two display planes where \<^verbatim>\<open>drmModeGetPlane\<close>
  returns \<^verbatim>\<open>NULL\<close> for the first: \<^verbatim>\<open>main\<close> reads \<^verbatim>\<open>plane->fb_id\<close> through the null pointer.
  The run ends there, without an exit status and without a query for the second plane;
  the plane is not skipped.
\<close>

theorem null_plane_crash:
  "main w_null argv2 =
     (Segfault,
      \<lparr>trace =
         [Open 0 (Some 3), GetCap 3, Close 3, Open 1 (Some 3), GetCap 3, Open 1 (Some 4),
          SetClientCap 4 DRM_CLIENT_CAP_ATOMIC 0,
          SetClientCap 4 DRM_CLIENT_CAP_UNIVERSAL_PLANES 0,
          GetPlaneResources 4 True, GetPlane 0 31 False],
       fdtab = [(0, Stdio), (1, Stdio), (2, Stdio), (3, CardNode 1), (4, CardNode 1)]\<rparr>)
   \<and> filter (\<lambda>e. queried_plane e = Some 1) (trace (snd (main w_null argv2))) = []"
  by (simp add: run_main run_save run_state run_w_ok w_null_def io_null_def)

lemma save_png_resolved:
  "filter (\<lambda>e. resolved_plane e = Some n) (trace (snd (save_png fb2 drm_fd png_fn i io s)))
     = filter (\<lambda>e. resolved_plane e = Some n) (trace s)"
  by (rule save_png_frame) simp_all

lemma plane_loop_resolved_later:
  assumes "n < i"
  shows "filter (\<lambda>e. resolved_plane e = Some n) (trace (snd (plane_loop drm_fd png_fn ios i s)))
     = filter (\<lambda>e. resolved_plane e = Some n) (trace s)"
  using assms
proof (induction ios arbitrary: i s)
  case Nil
  show ?case
    by (simp add: plane_loop.simps)
next
  case (Cons io ios)
  then have "n < Suc i" "n \<noteq> i"
    by simp_all
  with Cons.IH [of "Suc i"] show ?case
    by (simp add: plane_loop_run save_png_resolved)
qed

lemma plane_loop_inactive:
  assumes "get_plane io = Some pl" "fb_id pl = 0 \<or> crtc_id pl = 0"
  shows "plane_loop drm_fd png_fn (io # ios) i s =
     plane_loop drm_fd png_fn ios (Suc i)
       (emit (FreePlane i) (emit (GetPlane i (plane_id io) True) s))"
  using assms by (simp add: plane_loop_run)

lemma plane_loop_unresolved:
  assumes "j < length ios" "get_plane (ios ! j) = Some pl" "fb_id pl = 0 \<or> crtc_id pl = 0"
  shows "filter (\<lambda>e. resolved_plane e = Some (i + j))
           (trace (snd (plane_loop drm_fd png_fn ios i s)))
     = filter (\<lambda>e. resolved_plane e = Some (i + j)) (trace s)"
  using assms
proof (induction ios arbitrary: i j s)
  case Nil
  then show ?case
    by simp
next
  case (Cons io ios)
  show ?case
  proof (cases j)
    case 0
    with Cons.prems show ?thesis
      by (simp add: plane_loop_inactive plane_loop_resolved_later)
  next
    case (Suc j')
    with Cons.prems have "j' < length ios" "get_plane (ios ! j') = Some pl"
      by simp_all
    from Cons.IH [OF this Cons.prems(3), of "Suc i"] Suc show ?thesis
      by (simp add: plane_loop_run save_png_resolved)
  qed
qed

lemma main_unresolved:
  assumes "plane_res w = Some ios" "j < length ios" "get_plane (ios ! j) = Some pl"
    "fb_id pl = 0 \<or> crtc_id pl = 0"
  shows "filter (\<lambda>e. resolved_plane e = Some j) (trace (snd (main w argv))) = []"
proof -
  let ?P = "\<lambda>e. resolved_plane e = Some j"
  have p0: "filter ?P (trace proc0) = []"
    by (simp add: proc0_def)
  then have l: "filter ?P (trace (snd (locate w proc0))) = []"
    by (simp add: locate_frame [of ?P])
  have loop: "filter ?P (trace (snd (unwind w fd (plane_loop fd fn ios 0 s3)))) = []"
    if "filter ?P (trace s3) = []" for fd fn s3
    using plane_loop_unresolved [OF assms(2-4), of 0 fd fn s3] that
    by (cases "plane_loop fd fn ios 0 s3") (simp add: unwind_frame)
  from p0 l assms(1) show ?thesis
    by (simp add: main_run loop)
qed

text \<open>
  Claim C9. For every enumerated display plane whose bound buffer identifier is 0 or
  whose bound pipeline identifier is 0, no run of the program contains a buffer
  resolution (\<^verbatim>\<open>drmModeGetFB2\<close>) for that plane; at that plane the loop only queries and
  frees the plane state, prints nothing, and goes on with the next plane.
\<close>

theorem inactive_plane_skipped:
  assumes "plane_res w = Some ios" "j < length ios" "get_plane (ios ! j) = Some pl"
    "fb_id pl = 0 \<or> crtc_id pl = 0"
  shows "filter (\<lambda>e. resolved_plane e = Some j) (trace (snd (main w argv))) = []
    \<and> plane_loop drm_fd png_fn (drop j ios) j s =
        plane_loop drm_fd png_fn (drop (Suc j) ios) (Suc j)
          (emit (FreePlane j) (emit (GetPlane j (plane_id (ios ! j)) True) s))"
proof -
  from assms(2) have "drop j ios = ios ! j # drop (Suc j) ios"
    by (simp add: Cons_nth_drop_Suc)
  with assms(3,4) main_unresolved [OF assms] show ?thesis
    by (simp add: plane_loop_inactive)
qed

theorem inactive_plane_skipped_witness:
  "plane_res w_ok = Some [io_inactive, io_ok]
   \<and> filter (\<lambda>e. resolved_plane e = Some 0) (trace (snd (main w_ok argv2))) = []
   \<and> plane_loop 4 ''out'' [io_inactive, io_ok] 0 proc0 =
        plane_loop 4 ''out'' [io_ok] 1 (emit (FreePlane 0) (emit (GetPlane 0 31 True) proc0))"
proof -
  have h: "plane_res w_ok = Some [io_inactive, io_ok]" "(0::nat) < length [io_inactive, io_ok]"
    "get_plane ([io_inactive, io_ok] ! 0) = Some \<lparr>fb_id = 0, crtc_id = 50\<rparr>"
    "fb_id \<lparr>fb_id = 0, crtc_id = 50\<rparr> = 0 \<or> crtc_id \<lparr>fb_id = 0, crtc_id = 50\<rparr> = 0"
    by (simp_all add: w_ok_def io_inactive_def)
  have "plane_id io_inactive = 31"
    by (simp add: io_inactive_def io_ok_def)
  with inactive_plane_skipped [OF h, of argv2 4 "''out''" proc0] h(1) show ?thesis
    by simp
qed

end
